theory Spec2Isabelle
  imports Main
begin

section \<open>Values of the JavaScript runtime\<close>

text \<open>
  The avatar client is asynchronous JavaScript. Every call that leaves the program
  (the provider SDK, \<open>fetch\<close>, the media element) is given its outcome from outside, as
  a parameter of the operation that makes the call, and every such call is written to a
  trace of actions, in the order in which the code issues it. The two writes of the
  activity flag (\<open>MarkActive\<close>, with the session id stored next to it, and
  \<open>MarkInactive\<close>) are written to the trace as well. An \<open>await\<close> of a call that
  rejects, or a call that throws, raises inside the async function; the functions below
  return the raised error as \<open>Inl\<close>, next to the trace and the state reached.
\<close>

datatype js_error = Error string

datatype 'a outcome = Resolves 'a | Rejects js_error | Throws js_error

fun awaited :: "'a outcome \<Rightarrow> js_error + 'a" where
  "awaited (Resolves v) = Inr v"
| "awaited (Rejects e) = Inl e"
| "awaited (Throws e) = Inl e"

text \<open>Truthiness of a value that is a string, \<open>null\<close> or \<open>undefined\<close>.\<close>

fun truthy_str :: "string option \<Rightarrow> bool" where
  "truthy_str None = False"
| "truthy_str (Some v) = (v \<noteq> [])"

section \<open>The service object of services/heygenService.js\<close>

type_synonym media_stream = nat

text \<open>
  An instance of the provider's \<open>StreamingAvatar\<close>: the token it was built with stands for
  the object's identity, \<open>has_interrupt\<close> is \<open>typeof avatar.interrupt === 'function'\<close>, and
  \<open>mediaStream\<close> is the live stream handle the SDK fills in on its own.
\<close>

record avatar_handle =
  handle_token :: string
  has_interrupt :: bool
  mediaStream :: "media_stream option"

record video_element =
  srcObject :: "media_stream option"
  muted :: bool

text \<open>A state-change listener, seen from the service: does the callback throw?\<close>

type_synonym listener = "string \<Rightarrow> bool \<Rightarrow> bool"

text \<open>
  The fields of \<open>HeyGenService\<close>, as its constructor lists them. \<open>videoElement\<close> is a
  reference to a media element owned by the view; \<open>dom\<close> holds the elements themselves.
\<close>

record heygen_service =
  sessionId :: "string option"
  avatar :: "avatar_handle option"
  isSDKInitialized :: bool
  videoElement :: "nat option"
  isAvatarSpeaking :: bool
  isSessionActive :: bool
  keepAliveInterval :: "nat option"
  onStateChangeListeners :: "listener list"
  currentAvatarId :: "string option"
  currentVoiceId :: "string option"
  dom :: "nat \<Rightarrow> video_element"

record speak_config =
  speak_text :: "string option"
  task_type :: string
  task_mode :: "string option"
  speak_session_id :: "string option"

datatype callback = KeepAliveTick | RetryAttach nat

datatype action =
    StopAvatar string
  | FetchToken
  | NewStreamingAvatar string
  | CreateStartAvatar string string
  | FetchRegister "string option" string string
  | FetchUnregister string
  | FetchSendPrompt string
  | Speak string speak_config
  | Interrupt string
  | Delay nat
  | SetInterval nat callback
  | ClearInterval nat
  | SetTimeout nat callback
  | Notify string bool
  | Play nat
  | FetchActiveSessions
  | Alert string
  | ConsoleError string
  | MarkActive "string option"
  | MarkInactive

subsection \<open>stopKeepAlive and closeSession\<close>

definition stopKeepAlive :: "heygen_service \<Rightarrow> action list \<times> heygen_service" where
  "stopKeepAlive s =
     (case keepAliveInterval s of
        None \<Rightarrow> ([], s)
      | Some t \<Rightarrow> if t = 0 then ([], s)
                  else ([ClearInterval t], s\<lparr>keepAliveInterval := None\<rparr>))"

record close_env =
  close_stopAvatar :: "unit outcome"
  close_unregister :: "unit outcome"

record close_result =
  close_success :: bool

text \<open>The assignments of closeSession after the unregister request has returned.\<close>

definition clearSession :: "heygen_service \<Rightarrow> heygen_service" where
  "clearSession s =
     (let s1 = s\<lparr>sessionId := None, isSessionActive := False, isAvatarSpeaking := False,
                 currentAvatarId := None, currentVoiceId := None\<rparr>
      in case videoElement s1 of
           None \<Rightarrow> s1
         | Some r \<Rightarrow> s1\<lparr>dom := (dom s1)(r := (dom s1 r)\<lparr>srcObject := None\<rparr>)\<rparr>)"

definition closeSession ::
  "close_env \<Rightarrow> heygen_service \<Rightarrow> action list \<times> (js_error + close_result) \<times> heygen_service" where
  "closeSession env s =
     (case sessionId s of
        None \<Rightarrow> ([], Inr \<lparr>close_success = True\<rparr>, s)
      | Some sid \<Rightarrow>
          if sid = [] then ([], Inr \<lparr>close_success = True\<rparr>, s)
          else
            let (t1, s1) = stopKeepAlive s;
                (t2, r2) = (case avatar s1 of
                              None \<Rightarrow> ([], Inr ())
                            | Some a \<Rightarrow>
                                if isSDKInitialized s1
                                then ([StopAvatar (handle_token a)], awaited (close_stopAvatar env))
                                else ([], Inr ()))
            in case r2 of
                 Inl e \<Rightarrow> (t1 @ t2, Inl e, s1)
               | Inr _ \<Rightarrow>
                   (case awaited (close_unregister env) of
                      Inl e \<Rightarrow> (t1 @ t2 @ [FetchUnregister sid], Inl e, s1)
                    | Inr _ \<Rightarrow> (t1 @ t2 @ [FetchUnregister sid, MarkInactive],
                                Inr \<lparr>close_success = True\<rparr>, clearSession s1)))"

subsection \<open>notifyStateChange and the provider's events\<close>

text \<open>
  notifyStateChange calls every listener inside its own try/catch: a listener that throws
  is logged and the next one is still called, so the function itself never throws.
\<close>

definition notifyStateChange :: "string \<Rightarrow> bool \<Rightarrow> heygen_service \<Rightarrow> action list" where
  "notifyStateChange ev d s =
     concat (map (\<lambda>cb. if cb ev d then [Notify ev d, ConsoleError ''Error in listener'']
                        else [Notify ev d])
                 (onStateChangeListeners s))"

definition onAvatarStartTalking :: "heygen_service \<Rightarrow> action list \<times> heygen_service" where
  "onAvatarStartTalking s =
     (let s1 = s\<lparr>isAvatarSpeaking := True\<rparr> in (notifyStateChange ''avatar_speaking'' True s1, s1))"

definition onAvatarStopTalking :: "heygen_service \<Rightarrow> action list \<times> heygen_service" where
  "onAvatarStopTalking s =
     (let s1 = s\<lparr>isAvatarSpeaking := False\<rparr> in (notifyStateChange ''avatar_speaking'' False s1, s1))"

definition handleSessionDisconnect :: "heygen_service \<Rightarrow> action list \<times> heygen_service" where
  "handleSessionDisconnect s =
     (let s1 = s\<lparr>isSessionActive := False\<rparr>
      in (MarkInactive # notifyStateChange ''session_disconnected'' True s1, s1))"

subsection \<open>initializeSDK, startKeepAlive and createSessionWithBackend\<close>

record token_data =
  token_status :: string
  token_value :: string

record create_env =
  create_close :: close_env
  create_token :: "token_data outcome"
  init_stopAvatar :: "unit outcome"
  sdk_has_interrupt :: bool
  create_startAvatar :: "string option outcome"
  create_register :: "unit outcome"
  create_timer :: nat

record create_result =
  created_success :: bool
  created_sessionId :: "string option"
  created_avatarId :: string
  created_voiceId :: string

text \<open>
  initializeSDK stops the avatar object left from before, whatever that call answers
  (its failure is caught and logged), builds a new one from the token, and sets the flag.
\<close>

definition initializeSDK ::
  "unit outcome \<Rightarrow> bool \<Rightarrow> string \<Rightarrow> heygen_service \<Rightarrow> action list \<times> heygen_service" where
  "initializeSDK stop_outcome has_int accessToken s =
     (let t1 = (case avatar s of
                  None \<Rightarrow> []
                | Some a \<Rightarrow>
                    (case awaited stop_outcome of
                       Inl e \<Rightarrow> [StopAvatar (handle_token a)]
                     | Inr _ \<Rightarrow> [StopAvatar (handle_token a)]))
      in (t1 @ [NewStreamingAvatar accessToken],
          s\<lparr>avatar := Some \<lparr>handle_token = accessToken, has_interrupt = has_int,
                              mediaStream = None\<rparr>,
            isSDKInitialized := True\<rparr>))"

definition startKeepAlive :: "nat \<Rightarrow> heygen_service \<Rightarrow> action list \<times> heygen_service" where
  "startKeepAlive new_timer s =
     (let t1 = (case keepAliveInterval s of
                  None \<Rightarrow> []
                | Some t \<Rightarrow> if t = 0 then [] else [ClearInterval t])
      in (t1 @ [SetInterval 30000 KeepAliveTick], s\<lparr>keepAliveInterval := Some new_timer\<rparr>))"

text \<open>The try block of createSessionWithBackend: token, SDK, avatar, registration, keep-alive.\<close>

definition createSessionTry ::
  "create_env \<Rightarrow> string \<Rightarrow> string \<Rightarrow> heygen_service
     \<Rightarrow> action list \<times> (js_error + create_result) \<times> heygen_service" where
  "createSessionTry env avatarId voiceId s =
     (case awaited (create_token env) of
        Inl e \<Rightarrow> ([FetchToken], Inl e, s)
      | Inr tokenData \<Rightarrow>
          if token_status tokenData \<noteq> ''success''
          then ([FetchToken], Inl (Error ''Failed to get streaming token''), s)
          else
            let (t2, s2) = initializeSDK (init_stopAvatar env) (sdk_has_interrupt env)
                             (token_value tokenData) s
            in case awaited (create_startAvatar env) of
                 Inl e \<Rightarrow> (FetchToken # t2 @ [CreateStartAvatar avatarId voiceId], Inl e, s2)
               | Inr session_id \<Rightarrow>
                   let s3 = s2\<lparr>sessionId := session_id, isSessionActive := True\<rparr>;
                       t3 = (case awaited (create_register env) of
                               Inl e \<Rightarrow> [FetchRegister session_id avatarId voiceId,
                                         ConsoleError ''Backend registration failed'']
                             | Inr _ \<Rightarrow> [FetchRegister session_id avatarId voiceId]);
                       (t4, s4) = startKeepAlive (create_timer env) s3
                   in (FetchToken # t2 @ [CreateStartAvatar avatarId voiceId,
                                          MarkActive session_id] @ t3 @ t4,
                       Inr \<lparr>created_success = True, created_sessionId = session_id,
                            created_avatarId = avatarId, created_voiceId = voiceId\<rparr>,
                       s4))"

text \<open>
  The whole function: it records the requested ids, closes the session that is active
  (an error of closeSession leaves the function at once, before the delay), waits one
  second, and runs the try block.
\<close>

definition createSessionWithBackend ::
  "create_env \<Rightarrow> string \<Rightarrow> string \<Rightarrow> heygen_service
     \<Rightarrow> action list \<times> (js_error + create_result) \<times> heygen_service" where
  "createSessionWithBackend env avatarId voiceId s =
     (let s0 = s\<lparr>currentAvatarId := Some avatarId, currentVoiceId := Some voiceId\<rparr>
      in if isSessionActive s0 \<and> truthy_str (sessionId s0)
         then (case closeSession (create_close env) s0 of
                 (tc, Inl e, s1) \<Rightarrow> (tc, Inl e, s1)
               | (tc, Inr _, s1) \<Rightarrow>
                   (case createSessionTry env avatarId voiceId s1 of
                      (tt, r, s2) \<Rightarrow> (tc @ [Delay 1000] @ tt, r, s2)))
         else createSessionTry env avatarId voiceId s0)"

subsection \<open>The keep-alive tick\<close>

text \<open>
  \<open>promise.catch(() => {})\<close> turns a rejection into a fulfilled promise; a call that throws
  before it returns a promise is not touched by it.
\<close>

fun catch_ignore :: "'a outcome \<Rightarrow> unit outcome" where
  "catch_ignore (Resolves v) = Resolves ()"
| "catch_ignore (Rejects e) = Resolves ()"
| "catch_ignore (Throws e) = Throws e"

definition keepAliveSpeak :: "heygen_service \<Rightarrow> speak_config" where
  "keepAliveSpeak s =
     \<lparr>speak_text = Some '' '', task_type = ''talk'', task_mode = Some ''async'',
      speak_session_id = sessionId s\<rparr>"

text \<open>The callback given to setInterval; the surrounding try/catch ignores what is raised.\<close>

definition keepAliveTick ::
  "unit outcome \<Rightarrow> heygen_service \<Rightarrow> action list \<times> (js_error + unit) \<times> heygen_service" where
  "keepAliveTick speak_outcome s =
     (case avatar s of
        None \<Rightarrow> ([], Inr (), s)
      | Some a \<Rightarrow>
          if \<not> isSessionActive s \<or> isAvatarSpeaking s then ([], Inr (), s)
          else (case awaited (catch_ignore speak_outcome) of
                  Inl e \<Rightarrow> ([Speak (handle_token a) (keepAliveSpeak s)], Inr (), s)
                | Inr _ \<Rightarrow> ([Speak (handle_token a) (keepAliveSpeak s)], Inr (), s)))"

subsection \<open>interruptAvatar\<close>

definition interruptAvatar ::
  "unit outcome \<Rightarrow> heygen_service \<Rightarrow> action list \<times> (js_error + bool) \<times> heygen_service" where
  "interruptAvatar interrupt_outcome s =
     (case avatar s of
        None \<Rightarrow> ([], Inr False, s)
      | Some a \<Rightarrow>
          if \<not> isSDKInitialized s then ([], Inr False, s)
          else if has_interrupt a
          then (case awaited interrupt_outcome of
                  Inr _ \<Rightarrow>
                    let s1 = s\<lparr>isAvatarSpeaking := False\<rparr>
                    in (Interrupt (handle_token a) # notifyStateChange ''avatar_speaking'' False s1,
                        Inr True, s1)
                | Inl e \<Rightarrow>
                    let s1 = s\<lparr>isAvatarSpeaking := False\<rparr>
                    in (Interrupt (handle_token a) # ConsoleError ''Error interrupting''
                          # notifyStateChange ''avatar_speaking'' False s1,
                        Inr False, s1))
          else ([], Inr False, s))"

subsection \<open>sendPrompt\<close>

record llm_data =
  llm_status :: string
  llm_response :: "string option"
  llm_message :: "string option"
  llm_used_knowledge_base :: "bool option"
  llm_mode :: "string option"

record prompt_env =
  prompt_fetch :: "llm_data outcome"
  prompt_speak :: "unit outcome"

record prompt_result =
  prompt_success :: bool
  prompt_response :: "string option"
  heygen_sent :: bool
  used_knowledge_base :: "bool option"
  prompt_mode :: "string option"

text \<open>
  The service's sendPrompt checks the SDK and the activity flag, and nothing about the
  text: the prompt goes to the backend as it is, and the completion to the avatar.
\<close>

definition sendPrompt ::
  "prompt_env \<Rightarrow> string \<Rightarrow> heygen_service
     \<Rightarrow> action list \<times> (js_error + prompt_result) \<times> heygen_service" where
  "sendPrompt env prompt_text s =
     (case avatar s of
        None \<Rightarrow> ([], Inl (Error ''SDK not initialized''), s)
      | Some a \<Rightarrow>
          if \<not> isSDKInitialized s then ([], Inl (Error ''SDK not initialized''), s)
          else if \<not> isSessionActive s then ([], Inl (Error ''Session is not active''), s)
          else
            (case awaited (prompt_fetch env) of
               Inl e \<Rightarrow> ([FetchSendPrompt prompt_text], Inl e, s)
             | Inr llmData \<Rightarrow>
                 if llm_status llmData \<noteq> ''success''
                 then ([FetchSendPrompt prompt_text],
                       Inl (Error (if truthy_str (llm_message llmData)
                                   then (case llm_message llmData of Some m \<Rightarrow> m | None \<Rightarrow> [])
                                   else ''LLM response failed'')), s)
                 else
                   let speak = Speak (handle_token a)
                                 \<lparr>speak_text = llm_response llmData, task_type = ''talk'',
                                  task_mode = None, speak_session_id = sessionId s\<rparr>
                   in (case awaited (prompt_speak env) of
                         Inl e \<Rightarrow> ([FetchSendPrompt prompt_text, speak], Inl e, s)
                       | Inr _ \<Rightarrow>
                           ([FetchSendPrompt prompt_text, speak],
                            Inr \<lparr>prompt_success = True, prompt_response = llm_response llmData,
                                 heygen_sent = True,
                                 used_knowledge_base = llm_used_knowledge_base llmData,
                                 prompt_mode = llm_mode llmData\<rparr>, s))))"

subsection \<open>attachAvatarStream and its delayed retry\<close>

record event_detail =
  detail_stream :: "media_stream option"
  detail_mediaStream :: "media_stream option"

record stream_event =
  detail :: "event_detail option"
  event_stream :: "media_stream option"

record play_env =
  play_first :: "unit outcome"
  play_muted :: "unit outcome"

text \<open>The chain of \<open>if\<close>/\<open>else if\<close> that picks the stream, with its optional chaining.\<close>

definition pickStream :: "stream_event option \<Rightarrow> heygen_service \<Rightarrow> media_stream option" where
  "pickStream ev s =
     (case (case ev of None \<Rightarrow> None
                     | Some e \<Rightarrow> (case detail e of None \<Rightarrow> None | Some d \<Rightarrow> detail_stream d)) of
        Some m \<Rightarrow> Some m
      | None \<Rightarrow>
     (case (case ev of None \<Rightarrow> None
                     | Some e \<Rightarrow> (case detail e of None \<Rightarrow> None | Some d \<Rightarrow> detail_mediaStream d)) of
        Some m \<Rightarrow> Some m
      | None \<Rightarrow>
     (case (case ev of None \<Rightarrow> None | Some e \<Rightarrow> event_stream e) of
        Some m \<Rightarrow> Some m
      | None \<Rightarrow>
     (case avatar s of None \<Rightarrow> None | Some a \<Rightarrow> mediaStream a))))"

text \<open>
  With a stream the element gets it and is played. A \<open>media_stream\<close> is a MediaStream
  object, so the \<open>getTracks()\<close> call that is made for the log before the assignment
  returns. When the promise of the first \<open>play()\<close> rejects, the element is muted and
  played again, and a failure of the second play is only logged; a \<open>play()\<close> that throws
  before it returns a promise leaves the handler at once, with the stream assigned and
  the element not muted. Without a stream one timer of two seconds is set, whose callback
  holds the element it was given.
\<close>

definition attachAvatarStream ::
  "play_env \<Rightarrow> stream_event option \<Rightarrow> heygen_service
     \<Rightarrow> action list \<times> (js_error + unit) \<times> heygen_service" where
  "attachAvatarStream env ev s =
     (case videoElement s of
        None \<Rightarrow> ([ConsoleError ''No video element''], Inr (), s)
      | Some r \<Rightarrow>
          (case pickStream ev s of
             Some m \<Rightarrow>
               let s1 = s\<lparr>dom := (dom s)(r := (dom s r)\<lparr>srcObject := Some m\<rparr>)\<rparr>
               in (case play_first env of
                     Resolves ok \<Rightarrow> ([Play r], Inr (), s1)
                   | Throws e \<Rightarrow> ([Play r], Inl e, s1)
                   | Rejects e \<Rightarrow>
                       let s2 = s1\<lparr>dom := (dom s1)(r := (dom s1 r)\<lparr>muted := True\<rparr>)\<rparr>
                       in (case awaited (play_muted env) of
                             Inr ok \<Rightarrow> ([Play r, Play r], Inr (), s2)
                           | Inl e2 \<Rightarrow>
                               ([Play r, Play r, ConsoleError ''Failed to play video''],
                                Inr (), s2)))
           | None \<Rightarrow> ([ConsoleError ''No stream found in any source'',
                        SetTimeout 2000 (RetryAttach r)], Inr (), s)))"

definition retryAttach :: "nat \<Rightarrow> heygen_service \<Rightarrow> action list \<times> heygen_service" where
  "retryAttach r s =
     (case (case avatar s of None \<Rightarrow> None | Some a \<Rightarrow> mediaStream a) of
        None \<Rightarrow> ([], s)
      | Some m \<Rightarrow>
          (case srcObject (dom s r) of
             Some old \<Rightarrow> ([], s)
           | None \<Rightarrow>
               ([Play r],
                s\<lparr>dom := (dom s)(r := (dom s r)\<lparr>srcObject := Some m, muted := True\<rparr>)\<rparr>)))"

text \<open>The SDK stores the live stream in the avatar object at a time of its own.\<close>

definition providerStream :: "media_stream \<Rightarrow> heygen_service \<Rightarrow> heygen_service" where
  "providerStream m s =
     (case avatar s of None \<Rightarrow> s | Some a \<Rightarrow> s\<lparr>avatar := Some (a\<lparr>mediaStream := Some m\<rparr>)\<rparr>)"

section \<open>The component of App.jsx\<close>

text \<open>
  The state of \<open>HeyGenAvatarClient\<close> that its session handlers read or write (the session
  age, the category filter and the avatar-fetcher switch are left out), and \<open>videoRef\<close>.
  Strings are lists of code units below 256.
\<close>

record app =
  avatarId :: string
  voiceId :: string
  heygenConnected :: bool
  activeSessions :: nat
  prompt :: string
  loading :: bool
  ui_sessionId :: "string option"
  lastResponse :: "(string \<times> string option) option"
  chatRefreshTrigger :: nat
  ui_isAvatarSpeaking :: bool
  isVoiceMode :: bool
  transcriptionBuffer :: string
  videoRef :: "nat option"

text \<open>The \<open>id\<close> and \<open>voice_id\<close> of the entries of \<open>workingAvatars\<close>, in their order.\<close>

definition workingAvatars :: "(string \<times> string) list" where
  "workingAvatars =
     [(''josh_lite3_20230714'', ''da04d9a268ac468887a68359908e55b7''),
      (''Anthony_Chair_Sitting_public'', ''0009aabefe3a4553bc581d837b6268cb''),
      (''Pedro_Chair_Sitting_public'', ''e17b99e1b86e47e8b7f4cae0f806aa78''),
      (''Alessandra_Chair_Sitting_public'', ''1edc5e7338eb4e37b26dc8eb3f9b7e9c''),
      (''Amina_Chair_Sitting_public'', ''1edc5e7338eb4e37b26dc8eb3f9b7e9c''),
      (''Anastasia_Chair_Sitting_public'', ''1edc5e7338eb4e37b26dc8eb3f9b7e9c''),
      (''Marianne_Chair_Sitting_public'', ''1edc5e7338eb4e37b26dc8eb3f9b7e9c''),
      (''Rika_Chair_Sitting_public'', ''1edc5e7338eb4e37b26dc8eb3f9b7e9c'')]"

text \<open>\<open>workingAvatars.find(a => a.id === id)?.voice_id || fallback\<close>\<close>

definition voiceOf :: "string \<Rightarrow> string \<Rightarrow> string" where
  "voiceOf selected fallback =
     (if truthy_str (map_of workingAvatars selected)
      then (case map_of workingAvatars selected of Some v \<Rightarrow> v | None \<Rightarrow> fallback)
      else fallback)"

definition handleAvatarChange :: "string \<Rightarrow> app \<Rightarrow> action list \<times> app" where
  "handleAvatarChange selectedId ui =
     (if heygenConnected ui
      then ([Alert ''Please end the current session before changing avatars''], ui)
      else ([], ui\<lparr>avatarId := selectedId, voiceId := voiceOf selectedId (voiceId ui)\<rparr>))"

definition fetchActiveSessions :: "nat option outcome \<Rightarrow> app \<Rightarrow> action list \<times> app" where
  "fetchActiveSessions out ui =
     (case awaited out of
        Inl e \<Rightarrow> ([FetchActiveSessions, ConsoleError ''Error fetching active sessions''], ui)
      | Inr n \<Rightarrow> ([FetchActiveSessions],
                  ui\<lparr>activeSessions := (case n of None \<Rightarrow> 0 | Some k \<Rightarrow> k)\<rparr>))"

text \<open>A run of picks in the select element, one handleAvatarChange each.\<close>

fun pickAvatars :: "string list \<Rightarrow> app \<Rightarrow> action list \<times> app" where
  "pickAvatars [] ui = ([], ui)"
| "pickAvatars (sel # rest) ui =
     (case handleAvatarChange sel ui of
        (t1, ui1) \<Rightarrow> (case pickAvatars rest ui1 of (t2, ui2) \<Rightarrow> (t1 @ t2, ui2)))"

record app_create_env =
  app_create :: create_env
  app_create_sessions :: "nat option outcome"

text \<open>
  createHeyGenSession reads \<open>avatarId\<close> and \<open>voiceId\<close> when it is called and then awaits
  the service. The select element is disabled by \<open>heygenConnected\<close> only, so while the
  call is in flight the user can still pick avatars; \<open>during\<close> lists the ids picked in
  that time, each of which runs handleAvatarChange on the component state. The setters
  called after the await work on the state reached then.
\<close>

definition createHeyGenSession ::
  "app_create_env \<Rightarrow> string list \<Rightarrow> app \<times> heygen_service
     \<Rightarrow> action list \<times> (js_error + unit) \<times> app \<times> heygen_service" where
  "createHeyGenSession env during st =
     (case st of (ui, s) \<Rightarrow>
        let ui1 = ui\<lparr>loading := True\<rparr>;
            currentVoiceId' = voiceOf (avatarId ui) (voiceId ui)
        in case createSessionWithBackend (app_create env) (avatarId ui) currentVoiceId' s of
             (t, r, s1) \<Rightarrow>
               let (ta, ui2) = pickAvatars during ui1
               in (case r of
                     Inl (Error m) \<Rightarrow>
                       (t @ ta @ [ConsoleError ''Error creating session'',
                                  Alert (''Error creating session: '' @ m)],
                        Inr (), ui2\<lparr>loading := False\<rparr>, s1)
                   | Inr sessionData \<Rightarrow>
                       if created_success sessionData
                       then (case fetchActiveSessions (app_create_sessions env)
                                    (ui2\<lparr>ui_sessionId := created_sessionId sessionData,
                                         heygenConnected := True\<rparr>) of
                               (tf, ui3) \<Rightarrow> (t @ ta @ tf, Inr (), ui3\<lparr>loading := False\<rparr>, s1))
                       else (t @ ta @ [ConsoleError ''Error creating session'',
                                       Alert ''Error creating session: Failed to create session''],
                             Inr (), ui2\<lparr>loading := False\<rparr>, s1)))"

record app_close_env =
  app_close :: close_env
  app_close_sessions :: "nat option outcome"

definition closeHeyGenSession ::
  "app_close_env \<Rightarrow> app \<times> heygen_service
     \<Rightarrow> action list \<times> (js_error + unit) \<times> app \<times> heygen_service" where
  "closeHeyGenSession env st =
     (case st of (ui, s) \<Rightarrow>
        (case closeSession (app_close env) s of
           (t, Inl e, s1) \<Rightarrow> (t @ [ConsoleError ''Error closing session''], Inr (), ui, s1)
         | (t, Inr _, s1) \<Rightarrow>
             let s2 = (case videoRef ui of
                         None \<Rightarrow> s1
                       | Some r \<Rightarrow> s1\<lparr>dom := (dom s1)(r := (dom s1 r)\<lparr>srcObject := None\<rparr>)\<rparr>);
                 ui1 = ui\<lparr>ui_sessionId := None, heygenConnected := False,
                          ui_isAvatarSpeaking := False\<rparr>
             in (case fetchActiveSessions (app_close_sessions env) ui1 of
                   (tf, ui2) \<Rightarrow> (t @ tf, Inr (), ui2, s2))))"

text \<open>
  The effect that renews the session: it sets its timer (nine minutes) only when
  \<open>sessionId\<close> and \<open>heygenConnected\<close> are both truthy, and its callback closes, waits a
  second and creates. Both handlers catch what they raise, so the callback's own catch
  (the alert about a failed refresh) has nothing to catch.
\<close>

definition refreshScheduled :: "app \<Rightarrow> bool" where
  "refreshScheduled ui = (truthy_str (ui_sessionId ui) \<and> heygenConnected ui)"

definition refreshDelay :: nat where
  "refreshDelay = 9 * 60 * 1000"

record refresh_env =
  refresh_close :: app_close_env
  refresh_create :: app_create_env

definition sessionRefresh ::
  "refresh_env \<Rightarrow> app \<times> heygen_service
     \<Rightarrow> action list \<times> (js_error + unit) \<times> app \<times> heygen_service" where
  "sessionRefresh env st =
     (case closeHeyGenSession (refresh_close env) st of
        (t1, r1, ui1, s1) \<Rightarrow>
          (case createHeyGenSession (refresh_create env) [] (ui1, s1) of
             (t2, r2, ui2, s2) \<Rightarrow> (t1 @ [Delay 1000] @ t2, r2, ui2, s2)))"

text \<open>
  \<open>String.prototype.trim\<close> on code units below 256: tab, line feed, vertical tab, form
  feed, carriage return, space and no-break space are removed from both ends.
\<close>

definition js_whitespace :: "char \<Rightarrow> bool" where
  "js_whitespace c =
     (c = CHR 0x09 \<or> c = CHR 0x0A \<or> c = CHR 0x0B \<or> c = CHR 0x0C \<or> c = CHR 0x0D
      \<or> c = CHR 0x20 \<or> c = CHR 0xA0)"

definition trim :: "string \<Rightarrow> string" where
  "trim v = rev (dropWhile js_whitespace (rev (dropWhile js_whitespace v)))"

text \<open>The component's sendPrompt: it returns at once on a blank prompt or while loading.\<close>

definition app_sendPrompt ::
  "prompt_env \<Rightarrow> app \<times> heygen_service
     \<Rightarrow> action list \<times> (js_error + unit) \<times> app \<times> heygen_service" where
  "app_sendPrompt env st =
     (case st of (ui, s) \<Rightarrow>
        if trim (prompt ui) = [] \<or> loading ui then ([], Inr (), ui, s)
        else
          (case sendPrompt env (prompt ui) s of
             (t, Inl (Error m), s1) \<Rightarrow>
               (t @ [ConsoleError ''Error sending prompt'', Alert (''Error: '' @ m)],
                Inr (), ui\<lparr>loading := False\<rparr>, s1)
           | (t, Inr result, s1) \<Rightarrow>
               (t, Inr (),
                ui\<lparr>lastResponse := Some (prompt ui, prompt_response result),
                   chatRefreshTrigger := chatRefreshTrigger ui + 1,
                   prompt := [], transcriptionBuffer := [], isVoiceMode := False,
                   loading := False\<rparr>, s1)))"


section \<open>The manual negotiation of services/webrtcService.js\<close>

datatype ice_gathering = IceNew | IceGathering | IceComplete

text \<open>
  The local description: the answer that was set, and the candidates the browser has
  gathered into it so far.
\<close>

record session_description =
  sdp_answer :: string
  sdp_candidates :: "string list"

record peer_connection =
  iceServers :: "string list"
  remoteDescription :: "string option"
  localDescription :: "session_description option"
  iceGatheringState :: ice_gathering
  onicegatheringstatechange :: bool
  pc_closed :: bool

record webrtc_service =
  peerConnection :: "peer_connection option"
  isConnected :: bool

datatype sdp_data = SdpString string | SdpObject "string option"

datatype ice_event = Candidate string | GatheringState ice_gathering

datatype rtc_action =
    SetRemoteDescription string
  | CreateAnswer
  | SetLocalDescription string
  | SetIceTimeout nat
  | ClearIceTimeout
  | StartSession string session_description
  | ClosePeer

text \<open>
  What the browser and the provider answer during one negotiation. \<open>ice_after_local\<close> and
  \<open>candidates_after_local\<close> are what the connection shows when the continuation of
  setLocalDescription runs; \<open>ice_events\<close> are the later events, each with the milliseconds
  since then, in the order of arrival.
\<close>

record negotiate_env =
  set_remote :: "unit outcome"
  create_answer :: "string outcome"
  set_local :: "unit outcome"
  ice_after_local :: ice_gathering
  candidates_after_local :: "string list"
  ice_events :: "(nat \<times> ice_event) list"

record negotiation =
  neg_trace :: "rtc_action list"
  neg_result :: "js_error + unit"
  neg_pc :: "peer_connection option"
  neg_service :: webrtc_service
  neg_sent_at :: "nat option"

definition iceTimeout :: nat where
  "iceTimeout = 15000"

definition defaultIceServers :: "string list" where
  "defaultIceServers = [''stun:stun.l.google.com:19302'', ''stun:stun1.l.google.com:19302'']"

definition addCandidate :: "string \<Rightarrow> peer_connection \<Rightarrow> peer_connection" where
  "addCandidate c pc =
     (case localDescription pc of
        None \<Rightarrow> pc
      | Some d \<Rightarrow> pc\<lparr>localDescription := Some (d\<lparr>sdp_candidates := sdp_candidates d @ [c]\<rparr>)\<rparr>)"

text \<open>
  The wait between setting the handler with the timer and the call of
  sendAnswerToHeyGen: a state change to complete ends it at its own time, the timer ends
  it at 15000 ms, and events that would come later are never seen. The result is the
  time at which the wait ends, whether the timer ended it, and the connection then.
\<close>

fun iceWait :: "(nat \<times> ice_event) list \<Rightarrow> peer_connection \<Rightarrow> nat \<times> bool \<times> peer_connection" where
  "iceWait [] pc = (iceTimeout, True, pc)"
| "iceWait ((t, ev) # evs) pc =
     (if iceTimeout \<le> t then (iceTimeout, True, pc)
      else (case ev of
              Candidate c \<Rightarrow> iceWait evs (addCandidate c pc)
            | GatheringState g \<Rightarrow>
                if g = IceComplete then (t, False, pc\<lparr>iceGatheringState := g\<rparr>)
                else iceWait evs (pc\<lparr>iceGatheringState := g\<rparr>)))"

text \<open>
  The member \<open>startSession\<close> of the heygenService object that webrtcService.js imports
  from ./heygenService.js. The class HeyGenService of that module defines no such
  method, so the member is undefined and a call of it throws a TypeError, after its
  arguments have been evaluated and before anything is sent. (Of a method that was
  there, \<open>Resolves b\<close> would be a result whose \<open>success\<close> is \<open>b\<close>.)
\<close>

definition heygenService_startSession ::
  "(string \<Rightarrow> session_description \<Rightarrow> bool outcome) option" where
  "heygenService_startSession = None"

text \<open>
  sendAnswerToHeyGen: cleanup first (the timer, when one was set, and the handler), then
  the answer is to go to the provider; only here is the connection closed on failure.
\<close>

definition sendAnswerToHeyGen ::
  "bool \<Rightarrow> nat \<Rightarrow> string \<Rightarrow> rtc_action list \<Rightarrow> peer_connection
     \<Rightarrow> webrtc_service \<Rightarrow> negotiation" where
  "sendAnswerToHeyGen timer_set at sessionId' before pc ws =
     (let pc1 = pc\<lparr>onicegatheringstatechange := False\<rparr>;
          t1 = before @ (if timer_set then [ClearIceTimeout] else [])
      in case localDescription pc1 of
           None \<Rightarrow>
             \<lparr>neg_trace = t1 @ [ClosePeer],
              neg_result = Inl (Error ''TypeError: localDescription is null''),
              neg_pc = Some (pc1\<lparr>pc_closed := True\<rparr>), neg_service = ws, neg_sent_at = None\<rparr>
         | Some d \<Rightarrow>
             (case heygenService_startSession of
                None \<Rightarrow>
                  \<lparr>neg_trace = t1 @ [ClosePeer],
                   neg_result =
                     Inl (Error ''TypeError: heygenService.startSession is not a function''),
                   neg_pc = Some (pc1\<lparr>pc_closed := True\<rparr>), neg_service = ws,
                   neg_sent_at = None\<rparr>
              | Some startSession \<Rightarrow>
                  (case awaited (startSession sessionId' d) of
                     Inl e \<Rightarrow>
                       \<lparr>neg_trace = t1 @ [StartSession sessionId' d, ClosePeer],
                        neg_result = Inl e,
                        neg_pc = Some (pc1\<lparr>pc_closed := True\<rparr>), neg_service = ws,
                        neg_sent_at = Some at\<rparr>
                   | Inr ok \<Rightarrow>
                       if ok
                       then \<lparr>neg_trace = t1 @ [StartSession sessionId' d], neg_result = Inr (),
                             neg_pc = Some pc1, neg_service = ws\<lparr>peerConnection := Some pc1\<rparr>,
                             neg_sent_at = Some at\<rparr>
                       else \<lparr>neg_trace = t1 @ [StartSession sessionId' d, ClosePeer],
                             neg_result = Inl (Error ''Failed to start session''),
                             neg_pc = Some (pc1\<lparr>pc_closed := True\<rparr>), neg_service = ws,
                             neg_sent_at = Some at\<rparr>)))"

text \<open>
  setupConnection. The catch at the end of its promise chain (a failure of
  setRemoteDescription, createAnswer or setLocalDescription) runs cleanup and rejects.
\<close>

definition setupConnection ::
  "negotiate_env \<Rightarrow> sdp_data \<Rightarrow> string list option \<Rightarrow> string \<Rightarrow> webrtc_service \<Rightarrow> negotiation" where
  "setupConnection env sdpData servers sessionId' ws =
     (let sdpOffer = (case sdpData of SdpString v \<Rightarrow> Some v | SdpObject v \<Rightarrow> v)
      in case sdpOffer of
           None \<Rightarrow> \<lparr>neg_trace = [], neg_result = Inl (Error ''No SDP offer found in response''),
                     neg_pc = None, neg_service = ws, neg_sent_at = None\<rparr>
         | Some offer \<Rightarrow>
             if offer = []
             then \<lparr>neg_trace = [], neg_result = Inl (Error ''No SDP offer found in response''),
                   neg_pc = None, neg_service = ws, neg_sent_at = None\<rparr>
             else
               let pc = \<lparr>iceServers = (case servers of
                                          None \<Rightarrow> defaultIceServers
                                        | Some l \<Rightarrow> if l = [] then defaultIceServers else l),
                         remoteDescription = None, localDescription = None,
                         iceGatheringState = IceNew, onicegatheringstatechange = False,
                         pc_closed = False\<rparr>
               in case awaited (set_remote env) of
                    Inl e \<Rightarrow> \<lparr>neg_trace = [SetRemoteDescription offer], neg_result = Inl e,
                              neg_pc = Some pc, neg_service = ws, neg_sent_at = None\<rparr>
                  | Inr _ \<Rightarrow>
               let pc1 = pc\<lparr>remoteDescription := Some offer\<rparr>
               in case awaited (create_answer env) of
                    Inl e \<Rightarrow> \<lparr>neg_trace = [SetRemoteDescription offer, CreateAnswer],
                              neg_result = Inl e, neg_pc = Some pc1, neg_service = ws,
                              neg_sent_at = None\<rparr>
                  | Inr answer \<Rightarrow>
               (case awaited (set_local env) of
                    Inl e \<Rightarrow> \<lparr>neg_trace = [SetRemoteDescription offer, CreateAnswer,
                                           SetLocalDescription answer],
                              neg_result = Inl e, neg_pc = Some pc1, neg_service = ws,
                              neg_sent_at = None\<rparr>
                  | Inr _ \<Rightarrow>
               let pc2 = pc1\<lparr>localDescription :=
                                 Some \<lparr>sdp_answer = answer,
                                       sdp_candidates = candidates_after_local env\<rparr>,
                               iceGatheringState := ice_after_local env\<rparr>;
                   t2 = [SetRemoteDescription offer, CreateAnswer, SetLocalDescription answer]
               in if iceGatheringState pc2 = IceComplete
                  then sendAnswerToHeyGen False 0 sessionId' t2 pc2 ws
                  else (case iceWait (ice_events env) (pc2\<lparr>onicegatheringstatechange := True\<rparr>) of
                          (at, by_timer, pc3) \<Rightarrow>
                            sendAnswerToHeyGen True at sessionId'
                              (t2 @ [SetIceTimeout iceTimeout]) pc3 ws)))"

section \<open>Inputs used to exercise the theorems\<close>

definition idle_service :: heygen_service where
  "idle_service =
     \<lparr>sessionId = None, avatar = None, isSDKInitialized = False, videoElement = None,
      isAvatarSpeaking = False, isSessionActive = False, keepAliveInterval = None,
      onStateChangeListeners = [], currentAvatarId = None, currentVoiceId = None,
      dom = (\<lambda>_. \<lparr>srcObject = None, muted = False\<rparr>)\<rparr>"

text \<open>A session of Josh that is up, with one listener that throws on every event.\<close>

definition active_service :: heygen_service where
  "active_service =
     \<lparr>sessionId = Some ''sess_1'',
      avatar = Some \<lparr>handle_token = ''tok_1'', has_interrupt = True, mediaStream = None\<rparr>,
      isSDKInitialized = True, videoElement = Some 0,
      isAvatarSpeaking = False, isSessionActive = True, keepAliveInterval = Some 7,
      onStateChangeListeners = [\<lambda>ev d. True],
      currentAvatarId = Some ''josh_lite3_20230714'',
      currentVoiceId = Some ''da04d9a268ac468887a68359908e55b7'',
      dom = (\<lambda>_. \<lparr>srcObject = None, muted = False\<rparr>)\<rparr>"

definition failing_close_env :: close_env where
  "failing_close_env =
     \<lparr>close_stopAvatar = Rejects (Error ''stop failed''),
      close_unregister = Rejects (Error ''network'')\<rparr>"

definition ok_close_env :: close_env where
  "ok_close_env = \<lparr>close_stopAvatar = Resolves (), close_unregister = Resolves ()\<rparr>"

text \<open>Two providers' answers to a start: the first call of a run, and a later one.\<close>

definition first_create_env :: create_env where
  "first_create_env =
     \<lparr>create_close = ok_close_env,
      create_token = Resolves \<lparr>token_status = ''success'', token_value = ''tok_1''\<rparr>,
      init_stopAvatar = Resolves (), sdk_has_interrupt = True,
      create_startAvatar = Resolves (Some ''sess_1''), create_register = Resolves (),
      create_timer = 7\<rparr>"

definition second_create_env :: create_env where
  "second_create_env =
     \<lparr>create_close = ok_close_env,
      create_token = Resolves \<lparr>token_status = ''success'', token_value = ''tok_2''\<rparr>,
      init_stopAvatar = Rejects (Error ''already stopped''), sdk_has_interrupt = True,
      create_startAvatar = Resolves (Some ''sess_2''), create_register = Resolves (),
      create_timer = 8\<rparr>"

text \<open>The provider's result of createStartAvatar carries no \<open>session_id\<close>.\<close>

definition no_id_create_env :: create_env where
  "no_id_create_env = first_create_env\<lparr>create_startAvatar := Resolves None\<rparr>"

definition ok_prompt_env :: prompt_env where
  "ok_prompt_env =
     \<lparr>prompt_fetch = Resolves \<lparr>llm_status = ''success'', llm_response = Some ''Hello'',
                               llm_message = None, llm_used_knowledge_base = Some False,
                               llm_mode = None\<rparr>,
      prompt_speak = Resolves ()\<rparr>"

text \<open>The component while connected, with two spaces typed into the prompt field.\<close>

definition blank_app :: app where
  "blank_app =
     \<lparr>avatarId = ''josh_lite3_20230714'', voiceId = ''da04d9a268ac468887a68359908e55b7'',
      heygenConnected = True, activeSessions = 1, prompt = ''  '', loading = False,
      ui_sessionId = Some ''sess_1'', lastResponse = None, chatRefreshTrigger = 0,
      ui_isAvatarSpeaking = False, isVoiceMode = False, transcriptionBuffer = [],
      videoRef = Some 0\<rparr>"

section \<open>Closing\<close>

text \<open>
  C2 (idempotent close). In every state in which no session identifier is set
  (\<open>sessionId\<close> is null or the empty string), closeSession returns \<open>{success: true}\<close> at
  once: its trace is empty, so there is no stopAvatar call and no unregister request, and
  the state it returns is the state it was given, every session field and every media
  element included.
\<close>

theorem closeSession_idempotent:
  assumes "\<not> truthy_str (sessionId s)"
  shows "closeSession env s = ([], Inr \<lparr>close_success = True\<rparr>, s)"
proof (cases "sessionId s")
  case None
  then show ?thesis by (simp add: closeSession_def)
next
  case (Some sid)
  with assms have "sid = []" by simp
  with Some show ?thesis by (simp add: closeSession_def)
qed

theorem closeSession_idempotent_witness:
  "\<not> truthy_str (sessionId idle_service) \<and>
   closeSession failing_close_env idle_service
     = ([], Inr \<lparr>close_success = True\<rparr>, idle_service)"
  using closeSession_idempotent [of idle_service failing_close_env]
  by (simp add: idle_service_def)

section \<open>Keep-alive\<close>

text \<open>
  C3 (keep-alive guard). A tick whose state has the speaking flag set, or the session
  not active, or no avatar object, issues nothing. Any other tick issues exactly one
  speak call, with the text of one space, task type talk and task mode async, for the
  current session id. Whatever that call does (it resolves, rejects or throws), the tick
  returns without an error and the state after it is the state before it.
\<close>

theorem keepAlive_guard:
  "(isAvatarSpeaking s \<or> \<not> isSessionActive s \<or> avatar s = None
      \<longrightarrow> keepAliveTick out s = ([], Inr (), s)) \<and>
   (\<not> isAvatarSpeaking s \<and> isSessionActive s \<and> avatar s = Some a
      \<longrightarrow> keepAliveTick out s =
            ([Speak (handle_token a)
                \<lparr>speak_text = Some '' '', task_type = ''talk'', task_mode = Some ''async'',
                 speak_session_id = sessionId s\<rparr>], Inr (), s))"
  by (cases out) (auto simp: keepAliveTick_def keepAliveSpeak_def split: option.splits)

theorem keepAlive_guard_witness:
  "keepAliveTick (Rejects (Error ''gone'')) (active_service\<lparr>isAvatarSpeaking := True\<rparr>)
     = ([], Inr (), active_service\<lparr>isAvatarSpeaking := True\<rparr>) \<and>
   keepAliveTick (Throws (Error ''gone'')) active_service
     = ([Speak ''tok_1''
           \<lparr>speak_text = Some '' '', task_type = ''talk'', task_mode = Some ''async'',
            speak_session_id = Some ''sess_1''\<rparr>], Inr (), active_service)"
  using keepAlive_guard [where s = "active_service\<lparr>isAvatarSpeaking := True\<rparr>"
                           and out = "Rejects (Error ''gone'')"]
        keepAlive_guard [where s = active_service and out = "Throws (Error ''gone'')"
                           and a = "\<lparr>handle_token = ''tok_1'', has_interrupt = True,
                                     mediaStream = None\<rparr>"]
  by (simp add: active_service_def)

section \<open>Interrupt\<close>



section \<open>Prompts\<close>

lemma trim_blank: "list_all js_whitespace v \<Longrightarrow> trim v = []"
  by (induction v) (auto simp: trim_def)

text \<open>
  C5 (empty prompt), as the code has it. For a prompt that is empty or consists of
  white space only, the component's sendPrompt returns at once: no request to the
  backend, no speak call, no error raised or shown, and no change of the component or of
  the service. (The service's own sendPrompt does not look at the text.)
\<close>

theorem app_sendPrompt_blank:
  assumes "list_all js_whitespace (prompt ui)"
  shows "app_sendPrompt env (ui, s) = ([], Inr (), ui, s)"
  using trim_blank [OF assms] by (simp add: app_sendPrompt_def)

theorem app_sendPrompt_blank_witness:
  "list_all js_whitespace (prompt blank_app) \<and>
   app_sendPrompt ok_prompt_env (blank_app, active_service)
     = ([], Inr (), blank_app, active_service)"
  using app_sendPrompt_blank [of blank_app ok_prompt_env active_service]
  by (simp add: blank_app_def js_whitespace_def)

text \<open>
  The claim as it was stated fails: given a prompt of two spaces, the service's
  sendPrompt sends it to the backend, has the completion spoken and reports success, and
  the component's sendPrompt ends without an error.
\<close>

theorem sendPrompt_blank_counterexample:
  "sendPrompt ok_prompt_env ''  '' active_service =
     ([FetchSendPrompt ''  '',
       Speak ''tok_1'' \<lparr>speak_text = Some ''Hello'', task_type = ''talk'', task_mode = None,
                        speak_session_id = Some ''sess_1''\<rparr>],
      Inr \<lparr>prompt_success = True, prompt_response = Some ''Hello'', heygen_sent = True,
           used_knowledge_base = Some False, prompt_mode = None\<rparr>,
      active_service) \<and>
   fst (snd (app_sendPrompt ok_prompt_env (blank_app, active_service))) = Inr ()"
  by (simp add: sendPrompt_def app_sendPrompt_def ok_prompt_env_def active_service_def
        blank_app_def trim_def js_whitespace_def)

section \<open>Attaching the stream\<close>

text \<open>
  The order of the candidate sources in words: the first one that is present, of the
  event payload's stream field, the event payload's mediaStream field, the event's own
  stream, and the provider's live stream handle.
\<close>

fun firstPresent :: "'a option list \<Rightarrow> 'a option" where
  "firstPresent [] = None"
| "firstPresent (None # xs) = firstPresent xs"
| "firstPresent (Some x # xs) = Some x"

definition candidateSources ::
  "stream_event option \<Rightarrow> heygen_service \<Rightarrow> media_stream option list" where
  "candidateSources ev s =
     [Option.bind (Option.bind ev detail) detail_stream,
      Option.bind (Option.bind ev detail) detail_mediaStream,
      Option.bind ev event_stream,
      Option.bind (avatar s) mediaStream]"

lemma firstPresent_single: "firstPresent [x] = x"
  by (cases x) simp_all

lemma pickStream_firstPresent: "pickStream ev s = firstPresent (candidateSources ev s)"
  by (auto simp: pickStream_def candidateSources_def firstPresent_single split: option.splits)

lemma attach_found:
  assumes "videoElement s = Some r" "firstPresent (candidateSources ev s) = Some m"
  shows "srcObject (dom (snd (snd (attachAvatarStream env ev s))) r) = Some m"
    and "\<forall>d cb. SetTimeout d cb \<notin> set (fst (attachAvatarStream env ev s))"
  using assms
  by (auto simp: attachAvatarStream_def pickStream_firstPresent Let_def
        split: sum.splits outcome.splits)

lemma attach_missing:
  assumes "videoElement s = Some r" "firstPresent (candidateSources ev s) = None"
  shows "attachAvatarStream env ev s =
           ([ConsoleError ''No stream found in any source'', SetTimeout 2000 (RetryAttach r)],
            Inr (), s)"
  using assms by (simp add: attachAvatarStream_def pickStream_firstPresent)

lemma retry_binds:
  assumes "avatar s2 = Some a" "mediaStream a = Some m" "srcObject (dom s2 r) = None"
  shows "retryAttach r s2 =
           ([Play r], s2\<lparr>dom := (dom s2)(r := (dom s2 r)\<lparr>srcObject := Some m, muted := True\<rparr>)\<rparr>)"
  using assms by (simp add: retryAttach_def)

lemma retry_gives_up:
  assumes "Option.bind (avatar s2) mediaStream = None \<or> srcObject (dom s2 r) \<noteq> None"
  shows "retryAttach r s2 = ([], s2)"
  using assms by (auto simp: retryAttach_def split: option.splits)

text \<open>
  C9 (fallback order and one retry). With a media element \<open>r\<close> given to the service, a
  streamReady event binds to it the first candidate source that is present, in the order
  above, and sets no timer, whatever the playback then does. When no source is present the handler changes nothing and
  sets exactly one timer, of 2000 ms, for the retry on \<open>r\<close>. When the retry runs, in
  whatever state \<open>s2\<close> the service then is: if the avatar object has a live stream and the
  element has no source yet, the element gets that stream (muted, and played); otherwise
  the retry does nothing at all. The retry sets no timer of its own.
\<close>

theorem attachAvatarStream_fallback:
  assumes "videoElement s = Some r"
  shows "(firstPresent (candidateSources ev s) = Some m \<longrightarrow>
            srcObject (dom (snd (snd (attachAvatarStream env ev s))) r) = Some m \<and>
            (\<forall>d cb. SetTimeout d cb \<notin> set (fst (attachAvatarStream env ev s)))) \<and>
         (firstPresent (candidateSources ev s) = None \<longrightarrow>
            attachAvatarStream env ev s =
              ([ConsoleError ''No stream found in any source'',
                SetTimeout 2000 (RetryAttach r)], Inr (), s)) \<and>
         (avatar s2 = Some a \<and> mediaStream a = Some m2 \<and> srcObject (dom s2 r) = None \<longrightarrow>
            retryAttach r s2 =
              ([Play r],
               s2\<lparr>dom := (dom s2)(r := (dom s2 r)\<lparr>srcObject := Some m2, muted := True\<rparr>)\<rparr>)) \<and>
         (Option.bind (avatar s2) mediaStream = None \<or> srcObject (dom s2 r) \<noteq> None \<longrightarrow>
            retryAttach r s2 = ([], s2))"
  using attach_found [OF assms] attach_missing [OF assms] retry_binds retry_gives_up
  by blast

definition ready_event :: stream_event where
  "ready_event =
     \<lparr>detail = Some \<lparr>detail_stream = None, detail_mediaStream = Some 3\<rparr>,
      event_stream = Some 4\<rparr>"

definition play_ok :: play_env where
  "play_ok = \<lparr>play_first = Resolves (), play_muted = Resolves ()\<rparr>"

theorem attachAvatarStream_fallback_witness:
  "videoElement active_service = Some 0 \<and>
   srcObject (dom (snd (snd (attachAvatarStream play_ok (Some ready_event) active_service))) 0)
     = Some 3 \<and>
   attachAvatarStream play_ok None active_service =
     ([ConsoleError ''No stream found in any source'', SetTimeout 2000 (RetryAttach 0)],
      Inr (), active_service) \<and>
   srcObject (dom (snd (retryAttach 0 (providerStream 9 active_service))) 0) = Some 9 \<and>
   retryAttach 0 active_service = ([], active_service)"
  using attachAvatarStream_fallback
          [where s = active_service and r = 0 and ev = "Some ready_event" and m = 3
             and env = play_ok and ?s2.0 = "providerStream 9 active_service"
             and a = "\<lparr>handle_token = ''tok_1'', has_interrupt = True, mediaStream = Some 9\<rparr>"
             and ?m2.0 = 9]
        attachAvatarStream_fallback
          [where s = active_service and r = 0 and ev = None and m = 3
             and env = play_ok and ?s2.0 = active_service]
  by (simp add: active_service_def ready_event_def candidateSources_def providerStream_def)

section \<open>Manual negotiation\<close>

text \<open>The candidates that reach the local description before the timer ends the wait.\<close>

fun gathered :: "(nat \<times> ice_event) list \<Rightarrow> string list" where
  "gathered [] = []"
| "gathered ((t, ev) # evs) =
     (if iceTimeout \<le> t then []
      else (case ev of Candidate c \<Rightarrow> c # gathered evs | GatheringState g \<Rightarrow> gathered evs))"

text \<open>ICE gathering does not reach the complete state in the time the timer allows.\<close>

definition neverCompleteInTime :: "(nat \<times> ice_event) list \<Rightarrow> bool" where
  "neverCompleteInTime evs =
     list_all (\<lambda>(t, ev). t < iceTimeout \<longrightarrow> ev \<noteq> GatheringState IceComplete) evs"

text \<open>
  A negotiation whose description steps all succeed and whose gathering is still going
  on when the timer fires.
\<close>

definition slow_ice_env :: negotiate_env where
  "slow_ice_env =
     \<lparr>set_remote = Resolves (), create_answer = Resolves ''v=0 answer'', set_local = Resolves (),
      ice_after_local = IceGathering, candidates_after_local = [''host 1''],
      ice_events = [(40, Candidate ''srflx 2''), (900, GatheringState IceGathering)]\<rparr>"

definition no_connection :: webrtc_service where
  "no_connection = \<lparr>peerConnection = None, isConnected = False\<rparr>"

text \<open>The browser refuses the offer: setRemoteDescription rejects.\<close>

definition bad_offer_env :: negotiate_env where
  "bad_offer_env = slow_ice_env\<lparr>set_remote := Rejects (Error ''InvalidAccessError'')\<rparr>"

lemma iceWait_timeout:
  assumes "neverCompleteInTime evs"
  shows "fst (iceWait evs pc) = iceTimeout \<and> fst (snd (iceWait evs pc))
       \<and> localDescription (snd (snd (iceWait evs pc)))
           = map_option (\<lambda>d. d\<lparr>sdp_candidates := sdp_candidates d @ gathered evs\<rparr>)
               (localDescription pc)
       \<and> pc_closed (snd (snd (iceWait evs pc))) = pc_closed pc"
  using assms
proof (induction evs arbitrary: pc)
  case Nil
  then show ?case by (cases "localDescription pc") auto
next
  case (Cons x evs)
  obtain t ev where x: "x = (t, ev)" by (cases x)
  from Cons.prems have nc: "neverCompleteInTime evs"
    and ne: "t < iceTimeout \<Longrightarrow> ev \<noteq> GatheringState IceComplete"
    by (auto simp: neverCompleteInTime_def x)
  show ?case
  proof (cases "iceTimeout \<le> t")
    case True
    then show ?thesis by (cases "localDescription pc") (auto simp: x)
  next
    case False
    show ?thesis
    proof (cases ev)
      case (Candidate c)
      with False Cons.IH [OF nc, of "addCandidate c pc"] show ?thesis
        by (cases "localDescription pc") (auto simp: x addCandidate_def)
    next
      case (GatheringState g)
      with ne False have "g \<noteq> IceComplete" by simp
      with False GatheringState Cons.IH [OF nc, of "pc\<lparr>iceGatheringState := g\<rparr>"] show ?thesis
        by (cases "localDescription pc") (auto simp: x)
    qed
  qed
qed

text \<open>
  What the code does at the timeout, for every negotiation whose offer is there, whose
  three description steps succeed, and whose gathering is not complete before the timer
  of 15000 ms fires: the timer ends the wait and sendAnswerToHeyGen is entered, but the
  call of the undefined \<open>heygenService.startSession\<close> throws, so no answer is submitted, the
  connection is closed, nothing is stored in the service, and the negotiation rejects.
\<close>

lemma negotiation_timeout_rejects:
  assumes offer: "sdpData = SdpString offer \<or> sdpData = SdpObject (Some offer)" "offer \<noteq> []"
    and steps: "set_remote env = Resolves ()" "create_answer env = Resolves answer"
               "set_local env = Resolves ()"
    and never: "ice_after_local env \<noteq> IceComplete" "neverCompleteInTime (ice_events env)"
  shows "neg_result (setupConnection env sdpData servers sid ws) =
           Inl (Error ''TypeError: heygenService.startSession is not a function'') \<and>
         neg_sent_at (setupConnection env sdpData servers sid ws) = None \<and>
         neg_trace (setupConnection env sdpData servers sid ws) =
           [SetRemoteDescription offer, CreateAnswer, SetLocalDescription answer,
            SetIceTimeout 15000, ClearIceTimeout, ClosePeer] \<and>
         (\<exists>pc. neg_pc (setupConnection env sdpData servers sid ws) = Some pc \<and> pc_closed pc \<and>
               localDescription pc =
                 Some \<lparr>sdp_answer = answer,
                       sdp_candidates = candidates_after_local env @ gathered (ice_events env)\<rparr>) \<and>
         neg_service (setupConnection env sdpData servers sid ws) = ws"
proof -
  define pc2 where "pc2 =
     \<lparr>iceServers = (case servers of None \<Rightarrow> defaultIceServers
                                  | Some l \<Rightarrow> if l = [] then defaultIceServers else l),
      remoteDescription = Some offer,
      localDescription = Some \<lparr>sdp_answer = answer,
                               sdp_candidates = candidates_after_local env\<rparr>,
      iceGatheringState = ice_after_local env, onicegatheringstatechange = True,
      pc_closed = False\<rparr>"
  obtain at by_timer pc3 where w: "iceWait (ice_events env) pc2 = (at, by_timer, pc3)"
    by (cases "iceWait (ice_events env) pc2") auto
  from iceWait_timeout [OF never(2), of pc2] w
  have ld: "localDescription pc3 =
               Some \<lparr>sdp_answer = answer,
                     sdp_candidates = candidates_after_local env @ gathered (ice_events env)\<rparr>"
    by (simp add: pc2_def)
  have eq: "setupConnection env sdpData servers sid ws =
          sendAnswerToHeyGen True at sid
            [SetRemoteDescription offer, CreateAnswer, SetLocalDescription answer,
             SetIceTimeout iceTimeout] pc3 ws"
    using offer steps never(1) w
    by (auto simp: setupConnection_def pc2_def Let_def)
  show ?thesis
    unfolding eq using ld
    by (simp add: sendAnswerToHeyGen_def heygenService_startSession_def iceTimeout_def Let_def)
qed

lemma slow_ice_never_complete: "neverCompleteInTime (ice_events slow_ice_env)"
  by (simp add: slow_ice_env_def neverCompleteInTime_def iceTimeout_def)

text \<open>
  C6 (progress at the ICE timeout) does not hold. In this negotiation the three
  description steps succeed and gathering is still going on after 15000 ms. The timer
  does end the wait, but the negotiation does not resolve: the call of
  \<open>heygenService.startSession\<close>, a method the imported service does not have, throws, so
  the local answer is never submitted, the connection is closed, and the negotiation
  rejects with the TypeError.
\<close>

theorem negotiation_timeout_never_resolves:
  "neg_result (setupConnection slow_ice_env (SdpString ''v=0 offer'') None ''sess_1''
                 no_connection)
     = Inl (Error ''TypeError: heygenService.startSession is not a function'') \<and>
   neg_trace (setupConnection slow_ice_env (SdpString ''v=0 offer'') None ''sess_1''
                no_connection)
     = [SetRemoteDescription ''v=0 offer'', CreateAnswer, SetLocalDescription ''v=0 answer'',
        SetIceTimeout 15000, ClearIceTimeout, ClosePeer] \<and>
   neg_sent_at (setupConnection slow_ice_env (SdpString ''v=0 offer'') None ''sess_1''
                  no_connection) = None \<and>
   neg_pc (setupConnection slow_ice_env (SdpString ''v=0 offer'') None ''sess_1''
             no_connection)
     = Some \<lparr>iceServers = defaultIceServers, remoteDescription = Some ''v=0 offer'',
             localDescription = Some \<lparr>sdp_answer = ''v=0 answer'',
                                      sdp_candidates = [''host 1'', ''srflx 2'']\<rparr>,
             iceGatheringState = IceGathering, onicegatheringstatechange = False,
             pc_closed = True\<rparr>"
  by (simp add: setupConnection_def sendAnswerToHeyGen_def heygenService_startSession_def
        slow_ice_env_def no_connection_def neverCompleteInTime_def iceTimeout_def
        addCandidate_def Let_def)

text \<open>
  What the two failure paths do. A failure of setRemoteDescription, createAnswer or
  setLocalDescription reaches the catch of the promise chain, which rejects and leaves
  the connection open. A failure in sendAnswerToHeyGen closes it before rejecting.
\<close>

lemma chain_failure_leaves_open:
  assumes "sdpData = SdpString offer \<or> sdpData = SdpObject (Some offer)" "offer \<noteq> []"
    and "awaited (set_remote env) = Inl e \<or>
         (awaited (set_remote env) = Inr () \<and> awaited (create_answer env) = Inl e) \<or>
         (awaited (set_remote env) = Inr () \<and> awaited (create_answer env) = Inr answer \<and>
          awaited (set_local env) = Inl e)"
  shows "neg_result (setupConnection env sdpData servers sid ws) = Inl e \<and>
         (\<exists>pc. neg_pc (setupConnection env sdpData servers sid ws) = Some pc \<and> \<not> pc_closed pc) \<and>
         ClosePeer \<notin> set (neg_trace (setupConnection env sdpData servers sid ws))"
  using assms by (auto simp: setupConnection_def Let_def)

lemma send_failure_closes:
  assumes "neg_result (sendAnswerToHeyGen timer_set at sid before pc ws) = Inl e"
  shows "\<exists>pc'. neg_pc (sendAnswerToHeyGen timer_set at sid before pc ws) = Some pc' \<and>
               pc_closed pc' \<and>
               last (neg_trace (sendAnswerToHeyGen timer_set at sid before pc ws)) = ClosePeer"
  using assms
  by (auto simp: sendAnswerToHeyGen_def heygenService_startSession_def Let_def
        split: option.splits)

text \<open>
  C7 (the half-open connection on failure) does not hold for the steps before the
  answer is sent. Here the offer is refused by setRemoteDescription: the negotiation
  rejects with that error, no close was issued, and the connection it had created is
  still open.
\<close>

theorem setupConnection_leaves_half_open:
  "neg_result (setupConnection bad_offer_env (SdpString ''v=0 offer'') None ''sess_1''
                 no_connection)
     = Inl (Error ''InvalidAccessError'') \<and>
   neg_trace (setupConnection bad_offer_env (SdpString ''v=0 offer'') None ''sess_1''
                no_connection)
     = [SetRemoteDescription ''v=0 offer''] \<and>
   neg_pc (setupConnection bad_offer_env (SdpString ''v=0 offer'') None ''sess_1''
             no_connection)
     = Some \<lparr>iceServers = defaultIceServers, remoteDescription = None,
             localDescription = None, iceGatheringState = IceNew,
             onicegatheringstatechange = False, pc_closed = False\<rparr>"
  by (simp add: setupConnection_def bad_offer_env_def slow_ice_env_def)

section \<open>Replacing an active session\<close>

text \<open>
  Reading a trace for the activity flag: \<open>markAfter m tr\<close> is the flag after \<open>tr\<close> when it was
  \<open>m\<close> before, and \<open>oneAtATime m tr\<close> says that no session is marked active in \<open>tr\<close> while one
  is still marked, that is, every \<open>MarkActive\<close> finds the flag cleared.
\<close>

primrec markAfter :: "bool \<Rightarrow> action list \<Rightarrow> bool" where
  "markAfter m [] = m"
| "markAfter m (a # tr) =
     markAfter (case a of MarkActive sid \<Rightarrow> True | MarkInactive \<Rightarrow> False | _ \<Rightarrow> m) tr"

primrec oneAtATime :: "bool \<Rightarrow> action list \<Rightarrow> bool" where
  "oneAtATime m [] = True"
| "oneAtATime m (a # tr) =
     (case a of
        MarkActive sid \<Rightarrow> \<not> m \<and> oneAtATime True tr
      | MarkInactive \<Rightarrow> oneAtATime False tr
      | _ \<Rightarrow> oneAtATime m tr)"

text \<open>
  A sequence of starts and closes, with the provider's disconnect event as a third
  operation; the caller catches what an operation raises and goes on from the state
  reached.
\<close>

datatype session_op = Start create_env string string | Close close_env | Disconnect

fun runOp :: "session_op \<Rightarrow> heygen_service \<Rightarrow> action list \<times> heygen_service" where
  "runOp (Start env a v) s = (case createSessionWithBackend env a v s of (t, r, s1) \<Rightarrow> (t, s1))"
| "runOp (Close env) s = (case closeSession env s of (t, r, s1) \<Rightarrow> (t, s1))"
| "runOp Disconnect s = handleSessionDisconnect s"

fun runOps :: "session_op list \<Rightarrow> heygen_service \<Rightarrow> action list \<times> heygen_service" where
  "runOps [] s = ([], s)"
| "runOps (x # xs) s =
     (case runOp x s of (t1, s1) \<Rightarrow> (case runOps xs s1 of (t2, s2) \<Rightarrow> (t1 @ t2, s2)))"

text \<open>The provider answers createStartAvatar with a session id that is a non-empty string.\<close>

fun providerIdOk :: "session_op \<Rightarrow> bool" where
  "providerIdOk (Start env a v) =
     (case create_startAvatar env of Resolves sid \<Rightarrow> truthy_str sid | _ \<Rightarrow> True)"
| "providerIdOk x = True"

text \<open>A session that is flagged active has an id, an avatar object and an initialised SDK.\<close>

definition marksAgree :: "heygen_service \<Rightarrow> bool" where
  "marksAgree s =
     (isSessionActive s \<longrightarrow>
        truthy_str (sessionId s) \<and> avatar s \<noteq> None \<and> isSDKInitialized s)"

lemma markAfter_append: "markAfter m (t1 @ t2) = markAfter (markAfter m t1) t2"
  by (induction t1 arbitrary: m) auto

lemma oneAtATime_append:
  "oneAtATime m (t1 @ t2) = (oneAtATime m t1 \<and> oneAtATime (markAfter m t1) t2)"
  by (induction t1 arbitrary: m) (auto split: action.splits)

text \<open>A trace without writes of the flag.\<close>

definition quiet :: "action list \<Rightarrow> bool" where
  "quiet tr = (\<forall>m. markAfter m tr = m \<and> oneAtATime m tr)"

lemma quiet_Nil [simp]: "quiet []" by (simp add: quiet_def)

lemma quiet_append [simp]: "quiet t1 \<Longrightarrow> quiet t2 \<Longrightarrow> quiet (t1 @ t2)"
  by (simp add: quiet_def markAfter_append oneAtATime_append)

lemma quiet_notify [simp]: "quiet (notifyStateChange ev d s)"
proof -
  have "quiet (concat (map (\<lambda>cb. if cb ev d then [Notify ev d, ConsoleError ''Error in listener'']
                        else [Notify ev d]) ls))" for ls :: "listener list"
    by (induction ls) (auto simp: quiet_def markAfter_append oneAtATime_append)
  then show ?thesis by (simp add: notifyStateChange_def)
qed

lemma quiet_stopKeepAlive [simp]: "quiet (fst (stopKeepAlive s))"
  by (auto simp: stopKeepAlive_def quiet_def split: option.splits)

lemma quiet_startKeepAlive [simp]: "quiet (fst (startKeepAlive n s))"
  by (auto simp: startKeepAlive_def quiet_def Let_def split: option.splits)

lemma quiet_initializeSDK [simp]: "quiet (fst (initializeSDK o1 b tok s))"
  by (auto simp: initializeSDK_def quiet_def Let_def split: option.splits sum.splits)

text \<open>
  What each operation keeps: its trace marks one session at a time, the flag of the
  state it returns is the flag its trace ends with, and the state it returns is well
  formed in the sense above.
\<close>

definition tracks :: "heygen_service \<Rightarrow> action list \<times> heygen_service \<Rightarrow> bool" where
  "tracks s res = (case res of (tr, s1) \<Rightarrow>
      oneAtATime (isSessionActive s) tr \<and>
      markAfter (isSessionActive s) tr = isSessionActive s1 \<and> marksAgree s1)"

lemma stopKeepAlive_fields [simp]:
  "isSessionActive (snd (stopKeepAlive s)) = isSessionActive s"
  "sessionId (snd (stopKeepAlive s)) = sessionId s"
  "avatar (snd (stopKeepAlive s)) = avatar s"
  "isSDKInitialized (snd (stopKeepAlive s)) = isSDKInitialized s"
  by (auto simp: stopKeepAlive_def split: option.splits)

lemma clearSession_fields [simp]:
  "isSessionActive (clearSession s) = False"
  "sessionId (clearSession s) = None"
  "avatar (clearSession s) = avatar s"
  "isSDKInitialized (clearSession s) = isSDKInitialized s"
  by (auto simp: clearSession_def Let_def split: option.splits)

lemma closeSession_falsy:
  "\<not> truthy_str (sessionId s) \<Longrightarrow> closeSession env s = ([], Inr \<lparr>close_success = True\<rparr>, s)"
  by (cases "sessionId s") (auto simp: closeSession_def)

lemma quietD: "quiet tr \<Longrightarrow> markAfter m tr = m" "quiet tr \<Longrightarrow> oneAtATime m tr"
  by (simp_all add: quiet_def)

lemma quiet_single [simp]:
  "quiet [StopAvatar x]" "quiet [FetchUnregister y]" "quiet [ClearInterval n]"
  by (simp_all add: quiet_def)

lemma closeSession_shape:
  assumes "sessionId s = Some sid" "sid \<noteq> []"
  shows "(\<exists>t e. quiet t \<and> closeSession env s = (t, Inl e, snd (stopKeepAlive s))) \<or>
         (\<exists>t. quiet t \<and> closeSession env s =
                (t @ [MarkInactive], Inr \<lparr>close_success = True\<rparr>,
                 clearSession (snd (stopKeepAlive s))))"
proof -
  obtain t1 s1 where k: "stopKeepAlive s = (t1, s1)" by (cases "stopKeepAlive s")
  have q: "quiet t1" using quiet_stopKeepAlive [of s] k by simp
  obtain t2 r2 where st: "(case avatar s1 of
                              None \<Rightarrow> ([], Inr ())
                            | Some a \<Rightarrow>
                                if isSDKInitialized s1
                                then ([StopAvatar (handle_token a)], awaited (close_stopAvatar env))
                                else ([], Inr ())) = (t2, r2)"
    by (cases "(case avatar s1 of
                              None \<Rightarrow> ([], Inr ())
                            | Some a \<Rightarrow>
                                if isSDKInitialized s1
                                then ([StopAvatar (handle_token a)], awaited (close_stopAvatar env))
                                else ([], Inr ()))") auto
  have q2: "quiet t2" using st by (auto split: option.splits if_splits)
  have eq: "closeSession env s =
         (case r2 of
                 Inl e \<Rightarrow> (t1 @ t2, Inl e, s1)
               | Inr _ \<Rightarrow>
                   (case awaited (close_unregister env) of
                      Inl e \<Rightarrow> (t1 @ t2 @ [FetchUnregister sid], Inl e, s1)
                    | Inr _ \<Rightarrow> (t1 @ t2 @ [FetchUnregister sid, MarkInactive],
                                Inr \<lparr>close_success = True\<rparr>, clearSession s1)))"
    using assms k st by (simp add: closeSession_def)
  have q3: "quiet (t1 @ t2)" "quiet (t1 @ t2 @ [FetchUnregister sid])"
    using q q2 by simp_all
  have s1: "s1 = snd (stopKeepAlive s)" using k by simp
  show ?thesis
  proof (cases r2)
    case (Inl e)
    with eq have "closeSession env s = (t1 @ t2, Inl e, snd (stopKeepAlive s))"
      by (simp add: s1)
    with q3(1) show ?thesis by blast
  next
    case (Inr u)
    show ?thesis
    proof (cases "awaited (close_unregister env)")
      case (Inl e)
      with eq Inr have "closeSession env s
                          = (t1 @ t2 @ [FetchUnregister sid], Inl e, snd (stopKeepAlive s))"
        by (simp add: s1)
      with q3(2) show ?thesis by blast
    next
      case (Inr u2)
      with eq \<open>r2 = Inr u\<close>
      have "closeSession env s
              = ((t1 @ t2 @ [FetchUnregister sid]) @ [MarkInactive],
                 Inr \<lparr>close_success = True\<rparr>, clearSession (snd (stopKeepAlive s)))"
        by (simp add: s1)
      with q3(2) show ?thesis by blast
    qed
  qed
qed

lemma closeSession_tracks:
  assumes "marksAgree s"
  shows "tracks s (case closeSession env s of (t, r, s1) \<Rightarrow> (t, s1))"
proof (cases "truthy_str (sessionId s)")
  case False
  then show ?thesis using assms closeSession_falsy [OF False, of env] by (simp add: tracks_def)
next
  case True
  then obtain sid where sid: "sessionId s = Some sid" "sid \<noteq> []" by (cases "sessionId s") auto
  from closeSession_shape [OF sid, of env] show ?thesis
  proof (elim disjE exE conjE)
    fix t e assume "quiet t" "closeSession env s = (t, Inl e, snd (stopKeepAlive s))"
    with assms show ?thesis by (simp add: tracks_def marksAgree_def quietD)
  next
    fix t assume "quiet t" "closeSession env s =
                (t @ [MarkInactive], Inr \<lparr>close_success = True\<rparr>,
                 clearSession (snd (stopKeepAlive s)))"
    then show ?thesis
      by (simp add: tracks_def marksAgree_def quietD markAfter_append oneAtATime_append)
  qed
qed

lemma initializeSDK_fields [simp]:
  "isSessionActive (snd (initializeSDK o1 b tok s)) = isSessionActive s"
  "sessionId (snd (initializeSDK o1 b tok s)) = sessionId s"
  "avatar (snd (initializeSDK o1 b tok s))
     = Some \<lparr>handle_token = tok, has_interrupt = b, mediaStream = None\<rparr>"
  "isSDKInitialized (snd (initializeSDK o1 b tok s))"
  by (auto simp: initializeSDK_def Let_def)

lemma startKeepAlive_fields [simp]:
  "isSessionActive (snd (startKeepAlive n s)) = isSessionActive s"
  "sessionId (snd (startKeepAlive n s)) = sessionId s"
  "avatar (snd (startKeepAlive n s)) = avatar s"
  "isSDKInitialized (snd (startKeepAlive n s)) = isSDKInitialized s"
  by (auto simp: startKeepAlive_def Let_def)

lemma createSessionTry_tracks:
  assumes "\<not> isSessionActive s"
      and "case create_startAvatar env of Resolves sid \<Rightarrow> truthy_str sid | _ \<Rightarrow> True"
  shows "tracks s (case createSessionTry env a v s of (t, r, s1) \<Rightarrow> (t, s1))"
  using assms
  by (cases "create_startAvatar env"; cases "create_token env"; cases "create_register env")
     (auto simp: createSessionTry_def Let_def case_prod_unfold tracks_def marksAgree_def
        markAfter_append oneAtATime_append quietD)

lemma createSessionWithBackend_inactive:
  assumes "\<not> (isSessionActive s \<and> truthy_str (sessionId s))"
  shows "createSessionWithBackend env a v s
           = createSessionTry env a v (s\<lparr>currentAvatarId := Some a, currentVoiceId := Some v\<rparr>)"
  using assms by (auto simp: createSessionWithBackend_def Let_def)

lemma createSessionWithBackend_active:
  assumes "isSessionActive s" "truthy_str (sessionId s)"
  shows "createSessionWithBackend env a v s =
           (case closeSession (create_close env)
                   (s\<lparr>currentAvatarId := Some a, currentVoiceId := Some v\<rparr>) of
              (tc, Inl e, s1) \<Rightarrow> (tc, Inl e, s1)
            | (tc, Inr ok, s1) \<Rightarrow>
                (case createSessionTry env a v s1 of
                   (tt, r, s2) \<Rightarrow> (tc @ [Delay 1000] @ tt, r, s2)))"
  using assms by (simp add: createSessionWithBackend_def Let_def)

lemma createSessionWithBackend_tracks:
  assumes "marksAgree s"
      and "case create_startAvatar env of Resolves sid \<Rightarrow> truthy_str sid | _ \<Rightarrow> True"
  shows "tracks s (case createSessionWithBackend env a v s of (t, r, s1) \<Rightarrow> (t, s1))"
proof -
  define s0 where "s0 = s\<lparr>currentAvatarId := Some a, currentVoiceId := Some v\<rparr>"
  have s0: "isSessionActive s0 = isSessionActive s" "sessionId s0 = sessionId s" "marksAgree s0"
    using assms(1) by (simp_all add: s0_def marksAgree_def)
  show ?thesis
  proof (cases "isSessionActive s0 \<and> truthy_str (sessionId s0)")
    case False
    with s0 assms(1) have na: "\<not> isSessionActive s0" by (auto simp: marksAgree_def)
    from False s0 have ns: "\<not> (isSessionActive s \<and> truthy_str (sessionId s))" by simp
    from createSessionTry_tracks [OF na assms(2), of a v] s0 show ?thesis
      by (simp add: createSessionWithBackend_inactive [OF ns] s0_def [symmetric] tracks_def)
  next
    case True
    obtain tc rc s1 where c: "closeSession (create_close env) s0 = (tc, rc, s1)"
      by (cases "closeSession (create_close env) s0") auto
    from closeSession_tracks [OF s0(3), of "create_close env"] c
    have tc: "oneAtATime (isSessionActive s0) tc" "markAfter (isSessionActive s0) tc = isSessionActive s1"
      "marksAgree s1" by (simp_all add: tracks_def)
    show ?thesis
    proof (cases rc)
      case (Inl e)
      with True c tc s0 show ?thesis
        by (simp add: createSessionWithBackend_active s0_def [symmetric] tracks_def)
    next
      case (Inr ok)
      have na: "\<not> isSessionActive s1"
        using True c Inr
        by (cases "sessionId s0")
           (auto simp: closeSession_def case_prod_unfold Let_def split: sum.splits if_splits)
      obtain tt r s2 where t: "createSessionTry env a v s1 = (tt, r, s2)"
        by (cases "createSessionTry env a v s1") auto
      from createSessionTry_tracks [OF na assms(2), of a v] t
      have tt: "oneAtATime (isSessionActive s1) tt" "markAfter (isSessionActive s1) tt = isSessionActive s2"
        "marksAgree s2" by (simp_all add: tracks_def)
      from True c Inr t tc tt s0 show ?thesis
        by (simp add: createSessionWithBackend_active s0_def [symmetric] tracks_def
              markAfter_append oneAtATime_append)
    qed
  qed
qed

lemma runOp_tracks:
  assumes "marksAgree s" "providerIdOk x"
  shows "tracks s (runOp x s)"
proof (cases x)
  case (Start env a v)
  with assms createSessionWithBackend_tracks [of s env a v] show ?thesis by simp
next
  case (Close env)
  with assms closeSession_tracks [of s env] show ?thesis by simp
next
  case Disconnect
  with assms show ?thesis
    by (simp add: handleSessionDisconnect_def tracks_def marksAgree_def Let_def quietD)
qed

lemma runOps_tracks:
  assumes "marksAgree s" "list_all providerIdOk xs"
  shows "tracks s (runOps xs s)"
  using assms
proof (induction xs arbitrary: s)
  case Nil
  then show ?case by (simp add: tracks_def)
next
  case (Cons x xs)
  obtain t1 s1 where r1: "runOp x s = (t1, s1)" by (cases "runOp x s")
  obtain t2 s2 where r2: "runOps xs s1 = (t2, s2)" by (cases "runOps xs s1")
  from runOp_tracks [of s x] Cons.prems r1
  have a: "oneAtATime (isSessionActive s) t1" "markAfter (isSessionActive s) t1 = isSessionActive s1"
    "marksAgree s1" by (simp_all add: tracks_def)
  from Cons.IH [OF a(3)] Cons.prems r2
  have b: "oneAtATime (isSessionActive s1) t2" "markAfter (isSessionActive s1) t2 = isSessionActive s2"
    "marksAgree s2" by (simp_all add: tracks_def)
  from a b r1 r2 show ?case by (simp add: tracks_def markAfter_append oneAtATime_append)
qed


text \<open>What createSessionWithBackend issues after createStartAvatar, in a closed session.\<close>

definition afterCreate :: "create_env \<Rightarrow> string \<Rightarrow> string \<Rightarrow> action list" where
  "afterCreate env a v =
     (case awaited (create_startAvatar env) of
        Inl e \<Rightarrow> []
      | Inr sid \<Rightarrow>
          [MarkActive sid, FetchRegister sid a v]
          @ (case awaited (create_register env) of
               Inl e \<Rightarrow> [ConsoleError ''Backend registration failed'']
             | Inr ok \<Rightarrow> [])
          @ [SetInterval 30000 KeepAliveTick])"

lemma stopKeepAlive_timer: "startKeepAlive n (snd (stopKeepAlive s)) =
    ([SetInterval 30000 KeepAliveTick], (snd (stopKeepAlive s))\<lparr>keepAliveInterval := Some n\<rparr>)"
  by (auto simp: startKeepAlive_def stopKeepAlive_def split: option.splits)

lemma createSession_replace_order:
  assumes act: "isSessionActive s" "sessionId s = Some sid" "sid \<noteq> []"
      and av: "avatar s = Some old" "isSDKInitialized s"
      and cl: "close_stopAvatar (create_close env) = Resolves ()"
              "close_unregister (create_close env) = Resolves ()"
      and tok: "create_token env = Resolves td" "token_status td = ''success''"
  shows "fst (createSessionWithBackend env a v s) =
           fst (stopKeepAlive s)
           @ [StopAvatar (handle_token old), FetchUnregister sid, MarkInactive, Delay 1000,
              FetchToken, StopAvatar (handle_token old), NewStreamingAvatar (token_value td),
              CreateStartAvatar a v]
           @ afterCreate env a v"
proof -
  define s0 where "s0 = s\<lparr>currentAvatarId := Some a, currentVoiceId := Some v\<rparr>"
  define t1 where "t1 = fst (stopKeepAlive s0)"
  define s1 where "s1 = snd (stopKeepAlive s0)"
  have k: "stopKeepAlive s0 = (t1, s1)" by (simp add: t1_def s1_def)
  have t1: "t1 = fst (stopKeepAlive s)"
    by (auto simp: t1_def stopKeepAlive_def s0_def split: option.splits)
  have f: "avatar s1 = Some old" "isSDKInitialized s1" "sessionId s1 = Some sid"
    using act av by (simp_all add: s1_def s0_def)
  have c: "closeSession (create_close env) s0 =
             (t1 @ [StopAvatar (handle_token old), FetchUnregister sid, MarkInactive],
              Inr \<lparr>close_success = True\<rparr>, clearSession s1)"
  proof -
    have "sessionId s0 = Some sid" using act by (simp add: s0_def)
    with act cl f show ?thesis by (simp add: closeSession_def k)
  qed
  have kz: "keepAliveInterval (clearSession s1) = None \<or> keepAliveInterval (clearSession s1) = Some 0"
    by (auto simp: s1_def stopKeepAlive_def clearSession_def Let_def split: option.splits)
  have av1: "avatar (clearSession s1) = Some old"
    using f by simp
  have t: "fst (createSessionTry env a v (clearSession s1)) =
            [FetchToken, StopAvatar (handle_token old), NewStreamingAvatar (token_value td),
             CreateStartAvatar a v] @ afterCreate env a v"
    using tok av1 kz
    by (cases "create_startAvatar env"; cases "create_register env"; cases "init_stopAvatar env")
       (auto simp: createSessionTry_def afterCreate_def initializeSDK_def startKeepAlive_def
          Let_def)
  show ?thesis
    using act c t t1
    by (simp add: createSessionWithBackend_active s0_def [symmetric] case_prod_unfold)
qed

lemma closeSession_ids:
  "fst (closeSession env (s\<lparr>currentAvatarId := x, currentVoiceId := y\<rparr>)) = fst (closeSession env s)"
  "fst (snd (closeSession env (s\<lparr>currentAvatarId := x, currentVoiceId := y\<rparr>)))
     = fst (snd (closeSession env s))"
  by (auto simp: closeSession_def stopKeepAlive_def case_prod_unfold Let_def
        split: option.splits sum.splits)

lemma closeSession_trace:
  "FetchToken \<notin> set (fst (closeSession env s))"
  "CreateStartAvatar x y \<notin> set (fst (closeSession env s))"
  "Delay n \<notin> set (fst (closeSession env s))"
  by (auto simp: closeSession_def stopKeepAlive_def case_prod_unfold Let_def
        split: option.splits sum.splits if_splits)

lemma createSession_close_fails:
  assumes act: "isSessionActive s" "truthy_str (sessionId s)"
      and fail: "fst (snd (closeSession (create_close env) s)) = Inl e"
  shows "fst (snd (createSessionWithBackend env a v s)) = Inl e \<and>
         FetchToken \<notin> set (fst (createSessionWithBackend env a v s)) \<and>
         (\<forall>x y. CreateStartAvatar x y \<notin> set (fst (createSessionWithBackend env a v s)))"
proof -
  define s0 where "s0 = s\<lparr>currentAvatarId := Some a, currentVoiceId := Some v\<rparr>"
  obtain tc rc s1 where c: "closeSession (create_close env) s0 = (tc, rc, s1)"
    by (cases "closeSession (create_close env) s0") auto
  have rc: "rc = Inl e" using c fail closeSession_ids(2) [where env = "create_close env" and s = s and x = "Some a" and y = "Some v"]
    by (simp add: s0_def)
  have tc: "tc = fst (closeSession (create_close env) s)"
    using c closeSession_ids(1) [where env = "create_close env" and s = s and x = "Some a" and y = "Some v"] by (simp add: s0_def)
  have eq: "createSessionWithBackend env a v s = (tc, Inl e, s1)"
    using act c rc by (simp add: createSessionWithBackend_active s0_def [symmetric])
  show ?thesis unfolding eq using closeSession_trace [where env = "create_close env" and s = s] by (simp add: tc)
qed

text \<open>
  The state in which closeSession, called by createSessionWithBackend on entry, leaves
  the service.
\<close>

definition closedFirst :: "create_env \<Rightarrow> string \<Rightarrow> string \<Rightarrow> heygen_service \<Rightarrow> heygen_service" where
  "closedFirst env a v s =
     snd (snd (closeSession (create_close env)
                 (s\<lparr>currentAvatarId := Some a, currentVoiceId := Some v\<rparr>)))"

lemma stopKeepAlive_more [simp]:
  "isAvatarSpeaking (snd (stopKeepAlive s)) = isAvatarSpeaking s"
  "videoElement (snd (stopKeepAlive s)) = videoElement s"
  "dom (snd (stopKeepAlive s)) = dom s"
  "currentAvatarId (snd (stopKeepAlive s)) = currentAvatarId s"
  "currentVoiceId (snd (stopKeepAlive s)) = currentVoiceId s"
  "keepAliveInterval (snd (stopKeepAlive s)) = None \<or> keepAliveInterval (snd (stopKeepAlive s)) = Some 0"
  by (auto simp: stopKeepAlive_def split: option.splits)

lemma clearSession_more [simp]:
  "isAvatarSpeaking (clearSession s) = False"
  "currentAvatarId (clearSession s) = None"
  "currentVoiceId (clearSession s) = None"
  "keepAliveInterval (clearSession s) = keepAliveInterval s"
  "videoElement (clearSession s) = videoElement s"
  "videoElement s = Some r \<Longrightarrow> srcObject (dom (clearSession s) r) = None"
  by (auto simp: clearSession_def Let_def split: option.splits)

lemma createSession_replace_state:
  assumes act: "isSessionActive s" "sessionId s = Some sid" "sid \<noteq> []"
      and av: "avatar s = Some old" "isSDKInitialized s"
      and cl: "close_stopAvatar (create_close env) = Resolves ()"
              "close_unregister (create_close env) = Resolves ()"
  shows "sessionId (closedFirst env a v s) = None"
    and "\<not> isSessionActive (closedFirst env a v s)"
    and "\<not> isAvatarSpeaking (closedFirst env a v s)"
    and "currentAvatarId (closedFirst env a v s) = None"
    and "currentVoiceId (closedFirst env a v s) = None"
    and "keepAliveInterval (closedFirst env a v s) = None \<or>
         keepAliveInterval (closedFirst env a v s) = Some 0"
    and "avatar (closedFirst env a v s) = Some old"
    and "videoElement s = Some r \<Longrightarrow> srcObject (dom (closedFirst env a v s) r) = None"
    and "snd (createSessionWithBackend env a v s)
           = snd (createSessionTry env a v (closedFirst env a v s))"
proof -
  define s0 where "s0 = s\<lparr>currentAvatarId := Some a, currentVoiceId := Some v\<rparr>"
  define t1 where "t1 = fst (stopKeepAlive s0)"
  define s1 where "s1 = snd (stopKeepAlive s0)"
  have k: "stopKeepAlive s0 = (t1, s1)" by (simp add: t1_def s1_def)
  have f: "avatar s1 = Some old" "isSDKInitialized s1" "sessionId s1 = Some sid"
    "videoElement s1 = videoElement s"
    using act av by (simp_all add: s1_def s0_def)
  have c: "closeSession (create_close env) s0 =
             (t1 @ [StopAvatar (handle_token old), FetchUnregister sid, MarkInactive],
              Inr \<lparr>close_success = True\<rparr>, clearSession s1)"
  proof -
    have "sessionId s0 = Some sid" using act by (simp add: s0_def)
    with act cl f show ?thesis by (simp add: closeSession_def k)
  qed
  have cf: "closedFirst env a v s = clearSession s1"
    using c by (simp add: closedFirst_def s0_def)
  show "sessionId (closedFirst env a v s) = None"
       "\<not> isSessionActive (closedFirst env a v s)"
       "\<not> isAvatarSpeaking (closedFirst env a v s)"
       "currentAvatarId (closedFirst env a v s) = None"
       "currentVoiceId (closedFirst env a v s) = None"
       "avatar (closedFirst env a v s) = Some old"
    using f by (simp_all add: cf)
  show "keepAliveInterval (closedFirst env a v s) = None \<or>
         keepAliveInterval (closedFirst env a v s) = Some 0"
    using stopKeepAlive_more(6) [of s0] by (simp add: cf s1_def)
  show "srcObject (dom (closedFirst env a v s) r) = None" if "videoElement s = Some r"
    using that f by (simp add: cf)
  show "snd (createSessionWithBackend env a v s)
           = snd (createSessionTry env a v (closedFirst env a v s))"
    using act c
    by (simp add: createSessionWithBackend_active s0_def [symmetric] case_prod_unfold cf)
qed

lemma createSessionTry_outcome:
  assumes "create_token env = Resolves td" "token_status td = ''success''"
  shows "create_startAvatar env = Resolves new \<Longrightarrow>
           isSessionActive (snd (snd (createSessionTry env a v sc))) \<and>
           sessionId (snd (snd (createSessionTry env a v sc))) = new \<and>
           fst (snd (createSessionTry env a v sc)) =
             Inr \<lparr>created_success = True, created_sessionId = new,
                  created_avatarId = a, created_voiceId = v\<rparr>"
    and "awaited (create_startAvatar env) = Inl e \<Longrightarrow>
           fst (snd (createSessionTry env a v sc)) = Inl e \<and>
           isSessionActive (snd (snd (createSessionTry env a v sc))) = isSessionActive sc \<and>
           sessionId (snd (snd (createSessionTry env a v sc))) = sessionId sc"
  using assms
  by (auto simp: createSessionTry_def Let_def case_prod_unfold)

lemma createSession_close_fails_state:
  assumes act: "isSessionActive s" "truthy_str (sessionId s)"
      and fail: "fst (snd (closeSession (create_close env) s)) = Inl e"
  shows "isSessionActive (snd (snd (createSessionWithBackend env a v s)))"
    and "sessionId (snd (snd (createSessionWithBackend env a v s))) = sessionId s"
proof -
  define s0 where "s0 = s\<lparr>currentAvatarId := Some a, currentVoiceId := Some v\<rparr>"
  obtain sid where sid: "sessionId s0 = Some sid" "sid \<noteq> []"
    using act by (cases "sessionId s") (auto simp: s0_def)
  have f0: "fst (snd (closeSession (create_close env) s0)) = Inl e"
    using fail closeSession_ids(2) [where env = "create_close env" and s = s and x = "Some a"
                                      and y = "Some v"]
    by (simp add: s0_def)
  from closeSession_shape [OF sid, of "create_close env"] f0
  obtain t where c: "closeSession (create_close env) s0 = (t, Inl e, snd (stopKeepAlive s0))"
    by auto
  have eq: "createSessionWithBackend env a v s = (t, Inl e, snd (stopKeepAlive s0))"
    using act c by (simp add: createSessionWithBackend_active s0_def [symmetric])
  show "isSessionActive (snd (snd (createSessionWithBackend env a v s)))"
       "sessionId (snd (snd (createSessionWithBackend env a v s))) = sessionId s"
    using act by (simp_all add: eq s0_def)
qed

text \<open>
  C1 (one active session), as the code has it. Take a call of createSessionWithBackend
  in a state with an active session \<open>sid\<close> on the avatar object \<open>old\<close>, the SDK initialised
  (as it is whenever a session is active, by \<open>runOps_tracks\<close>).

  When closeSession succeeds and the token is granted, the calls are, in this order:
  the keep-alive timer cleared, stopAvatar on \<open>old\<close>, the unregister request for \<open>sid\<close>,
  the flag cleared, the delay of 1000 ms, the token fetch, stopAvatar on \<open>old\<close> a second
  time (by initializeSDK, whose failure is ignored), the new avatar object,
  createStartAvatar with the requested ids, and then what follows it. So the old
  session is stopped twice, not once, before the new one is requested. The state that
  closeSession leaves, and in which all that follows the delay runs, has no session: the
  session id, the activity flag, the speaking flag, the avatar and voice ids and the
  keep-alive timer are cleared, and so is the source of the media element. At the end
  the new session is the active one when createStartAvatar resolved, and no session is
  active when it failed.

  When closeSession fails, the call fails with its error, neither the token fetch nor
  createStartAvatar is issued, and the old session stays the active one.

  In every sequence of starts, closes and disconnect events, run one after the other
  from a well-formed state and with a provider whose session ids are non-empty, no
  session is marked active while another one is still marked; the flag in the state
  after the sequence is the one its trace ends with, and the state is well formed again.
\<close>

theorem createSession_replaces_active:
  "(isSessionActive s \<and> sessionId s = Some sid \<and> sid \<noteq> [] \<and>
    avatar s = Some old \<and> isSDKInitialized s \<and>
    close_stopAvatar (create_close env) = Resolves () \<and>
    close_unregister (create_close env) = Resolves () \<and>
    create_token env = Resolves td \<and> token_status td = ''success''
    \<longrightarrow> fst (createSessionWithBackend env a v s) =
          fst (stopKeepAlive s)
          @ [StopAvatar (handle_token old), FetchUnregister sid, MarkInactive, Delay 1000,
             FetchToken, StopAvatar (handle_token old), NewStreamingAvatar (token_value td),
             CreateStartAvatar a v]
          @ afterCreate env a v \<and>
        sessionId (closedFirst env a v s) = None \<and>
        \<not> isSessionActive (closedFirst env a v s) \<and>
        \<not> isAvatarSpeaking (closedFirst env a v s) \<and>
        currentAvatarId (closedFirst env a v s) = None \<and>
        currentVoiceId (closedFirst env a v s) = None \<and>
        (keepAliveInterval (closedFirst env a v s) = None \<or>
         keepAliveInterval (closedFirst env a v s) = Some 0) \<and>
        (videoElement s = Some r \<longrightarrow> srcObject (dom (closedFirst env a v s) r) = None) \<and>
        snd (createSessionWithBackend env a v s)
          = snd (createSessionTry env a v (closedFirst env a v s)) \<and>
        (create_startAvatar env = Resolves new \<longrightarrow>
           isSessionActive (snd (snd (createSessionWithBackend env a v s))) \<and>
           sessionId (snd (snd (createSessionWithBackend env a v s))) = new) \<and>
        (awaited (create_startAvatar env) = Inl e' \<longrightarrow>
           fst (snd (createSessionWithBackend env a v s)) = Inl e' \<and>
           \<not> isSessionActive (snd (snd (createSessionWithBackend env a v s))) \<and>
           sessionId (snd (snd (createSessionWithBackend env a v s))) = None)) \<and>
   (isSessionActive s \<and> truthy_str (sessionId s) \<and>
    fst (snd (closeSession (create_close env) s)) = Inl e
    \<longrightarrow> fst (snd (createSessionWithBackend env a v s)) = Inl e \<and>
        FetchToken \<notin> set (fst (createSessionWithBackend env a v s)) \<and>
        (\<forall>x y. CreateStartAvatar x y \<notin> set (fst (createSessionWithBackend env a v s))) \<and>
        isSessionActive (snd (snd (createSessionWithBackend env a v s))) \<and>
        sessionId (snd (snd (createSessionWithBackend env a v s))) = sessionId s) \<and>
   (marksAgree s' \<and> list_all providerIdOk ops
    \<longrightarrow> oneAtATime (isSessionActive s') (fst (runOps ops s')) \<and>
        markAfter (isSessionActive s') (fst (runOps ops s'))
          = isSessionActive (snd (runOps ops s')) \<and>
        marksAgree (snd (runOps ops s')))"
proof -
  have A: "isSessionActive s \<and> sessionId s = Some sid \<and> sid \<noteq> [] \<and>
    avatar s = Some old \<and> isSDKInitialized s \<and>
    close_stopAvatar (create_close env) = Resolves () \<and>
    close_unregister (create_close env) = Resolves () \<and>
    create_token env = Resolves td \<and> token_status td = ''success''
    \<longrightarrow> fst (createSessionWithBackend env a v s) =
          fst (stopKeepAlive s)
          @ [StopAvatar (handle_token old), FetchUnregister sid, MarkInactive, Delay 1000,
             FetchToken, StopAvatar (handle_token old), NewStreamingAvatar (token_value td),
             CreateStartAvatar a v]
          @ afterCreate env a v \<and>
        sessionId (closedFirst env a v s) = None \<and>
        \<not> isSessionActive (closedFirst env a v s) \<and>
        \<not> isAvatarSpeaking (closedFirst env a v s) \<and>
        currentAvatarId (closedFirst env a v s) = None \<and>
        currentVoiceId (closedFirst env a v s) = None \<and>
        (keepAliveInterval (closedFirst env a v s) = None \<or>
         keepAliveInterval (closedFirst env a v s) = Some 0) \<and>
        (videoElement s = Some r \<longrightarrow> srcObject (dom (closedFirst env a v s) r) = None) \<and>
        snd (createSessionWithBackend env a v s)
          = snd (createSessionTry env a v (closedFirst env a v s)) \<and>
        (create_startAvatar env = Resolves new \<longrightarrow>
           isSessionActive (snd (snd (createSessionWithBackend env a v s))) \<and>
           sessionId (snd (snd (createSessionWithBackend env a v s))) = new) \<and>
        (awaited (create_startAvatar env) = Inl e' \<longrightarrow>
           fst (snd (createSessionWithBackend env a v s)) = Inl e' \<and>
           \<not> isSessionActive (snd (snd (createSessionWithBackend env a v s))) \<and>
           sessionId (snd (snd (createSessionWithBackend env a v s))) = None)"
  proof (rule impI, elim conjE)
    assume act: "isSessionActive s" "sessionId s = Some sid" "sid \<noteq> []"
      and av: "avatar s = Some old" "isSDKInitialized s"
      and cl: "close_stopAvatar (create_close env) = Resolves ()"
              "close_unregister (create_close env) = Resolves ()"
      and tok: "create_token env = Resolves td" "token_status td = ''success''"
    note st = createSession_replace_state [OF act av cl, where a = a and v = v]
    note tr = createSession_replace_order [OF act av cl tok, where a = a and v = v]
    have n1: "isSessionActive (snd (snd (createSessionWithBackend env a v s))) \<and>
              sessionId (snd (snd (createSessionWithBackend env a v s))) = new"
      if "create_startAvatar env = Resolves new"
      using createSessionTry_outcome(1) [OF tok that, where a = a and v = v and sc = "closedFirst env a v s"]
      by (simp add: st(9))
    have n2: "fst (snd (createSessionWithBackend env a v s)) = Inl e' \<and>
           \<not> isSessionActive (snd (snd (createSessionWithBackend env a v s))) \<and>
           sessionId (snd (snd (createSessionWithBackend env a v s))) = None"
      if "awaited (create_startAvatar env) = Inl e'"
      using createSessionTry_outcome(2) [OF tok that, where a = a and v = v and sc = "closedFirst env a v s"] st(1,2)
      by (simp add: st(9))
    show "fst (createSessionWithBackend env a v s) =
          fst (stopKeepAlive s)
          @ [StopAvatar (handle_token old), FetchUnregister sid, MarkInactive, Delay 1000,
             FetchToken, StopAvatar (handle_token old), NewStreamingAvatar (token_value td),
             CreateStartAvatar a v]
          @ afterCreate env a v \<and>
        sessionId (closedFirst env a v s) = None \<and>
        \<not> isSessionActive (closedFirst env a v s) \<and>
        \<not> isAvatarSpeaking (closedFirst env a v s) \<and>
        currentAvatarId (closedFirst env a v s) = None \<and>
        currentVoiceId (closedFirst env a v s) = None \<and>
        (keepAliveInterval (closedFirst env a v s) = None \<or>
         keepAliveInterval (closedFirst env a v s) = Some 0) \<and>
        (videoElement s = Some r \<longrightarrow> srcObject (dom (closedFirst env a v s) r) = None) \<and>
        snd (createSessionWithBackend env a v s)
          = snd (createSessionTry env a v (closedFirst env a v s)) \<and>
        (create_startAvatar env = Resolves new \<longrightarrow>
           isSessionActive (snd (snd (createSessionWithBackend env a v s))) \<and>
           sessionId (snd (snd (createSessionWithBackend env a v s))) = new) \<and>
        (awaited (create_startAvatar env) = Inl e' \<longrightarrow>
           fst (snd (createSessionWithBackend env a v s)) = Inl e' \<and>
           \<not> isSessionActive (snd (snd (createSessionWithBackend env a v s))) \<and>
           sessionId (snd (snd (createSessionWithBackend env a v s))) = None)"
      apply (intro conjI)
                apply (rule tr)
               apply (rule st(1))
              apply (rule st(2))
             apply (rule st(3))
            apply (rule st(4))
           apply (rule st(5))
          apply (rule st(6))
         apply (rule impI, erule st(8))
        apply (rule st(9))
       apply (rule impI, erule n1)
      apply (rule impI, erule n2)
      done
  qed
  have B: "isSessionActive s \<and> truthy_str (sessionId s) \<and>
    fst (snd (closeSession (create_close env) s)) = Inl e
    \<longrightarrow> fst (snd (createSessionWithBackend env a v s)) = Inl e \<and>
        FetchToken \<notin> set (fst (createSessionWithBackend env a v s)) \<and>
        (\<forall>x y. CreateStartAvatar x y \<notin> set (fst (createSessionWithBackend env a v s))) \<and>
        isSessionActive (snd (snd (createSessionWithBackend env a v s))) \<and>
        sessionId (snd (snd (createSessionWithBackend env a v s))) = sessionId s"
  proof (rule impI, elim conjE)
    assume h: "isSessionActive s" "truthy_str (sessionId s)"
      "fst (snd (closeSession (create_close env) s)) = Inl e"
    from createSession_close_fails [OF h, where a = a and v = v]
         createSession_close_fails_state [OF h, where a = a and v = v]
    show "fst (snd (createSessionWithBackend env a v s)) = Inl e \<and>
        FetchToken \<notin> set (fst (createSessionWithBackend env a v s)) \<and>
        (\<forall>x y. CreateStartAvatar x y \<notin> set (fst (createSessionWithBackend env a v s))) \<and>
        isSessionActive (snd (snd (createSessionWithBackend env a v s))) \<and>
        sessionId (snd (snd (createSessionWithBackend env a v s))) = sessionId s"
      by blast
  qed
  have C: "marksAgree s' \<and> list_all providerIdOk ops
    \<longrightarrow> oneAtATime (isSessionActive s') (fst (runOps ops s')) \<and>
        markAfter (isSessionActive s') (fst (runOps ops s'))
          = isSessionActive (snd (runOps ops s')) \<and>
        marksAgree (snd (runOps ops s'))"
  proof (rule impI, elim conjE)
    assume h: "marksAgree s'" "list_all providerIdOk ops"
    from runOps_tracks [OF h]
    show "oneAtATime (isSessionActive s') (fst (runOps ops s')) \<and>
        markAfter (isSessionActive s') (fst (runOps ops s'))
          = isSessionActive (snd (runOps ops s')) \<and>
        marksAgree (snd (runOps ops s'))"
      by (simp add: tracks_def case_prod_unfold)
  qed
  show ?thesis by (rule conjI [OF A conjI [OF B C]])
qed

text \<open>
  The claim as it was stated fails twice. On the number of stops: before createStartAvatar
  is issued for the new session, stopAvatar has been called on the old avatar object
  twice. On the sessions marked active: when the provider's result has no session id, the
  session is flagged active with no id, the guard of the next start does not see it, and
  the next session is marked active with nothing closed and the flag never cleared.
\<close>

theorem createSession_stop_counterexample:
  "fst (createSessionWithBackend second_create_env ''Anthony_Chair_Sitting_public''
          ''0009aabefe3a4553bc581d837b6268cb'' active_service) =
     [ClearInterval 7, StopAvatar ''tok_1'', FetchUnregister ''sess_1'', MarkInactive,
      Delay 1000, FetchToken, StopAvatar ''tok_1'', NewStreamingAvatar ''tok_2'',
      CreateStartAvatar ''Anthony_Chair_Sitting_public'' ''0009aabefe3a4553bc581d837b6268cb'',
      MarkActive (Some ''sess_2''),
      FetchRegister (Some ''sess_2'') ''Anthony_Chair_Sitting_public''
        ''0009aabefe3a4553bc581d837b6268cb'',
      SetInterval 30000 KeepAliveTick] \<and>
   count_list
     (take 8 (fst (createSessionWithBackend second_create_env ''Anthony_Chair_Sitting_public''
                     ''0009aabefe3a4553bc581d837b6268cb'' active_service)))
     (StopAvatar ''tok_1'') = 2 \<and>
   fst (createSessionWithBackend second_create_env ''Anthony_Chair_Sitting_public''
          ''0009aabefe3a4553bc581d837b6268cb'' active_service) ! 8
     = CreateStartAvatar ''Anthony_Chair_Sitting_public'' ''0009aabefe3a4553bc581d837b6268cb'' \<and>
   isSessionActive
     (snd (runOps [Start no_id_create_env ''josh_lite3_20230714''
                     ''da04d9a268ac468887a68359908e55b7''] idle_service)) \<and>
   sessionId
     (snd (runOps [Start no_id_create_env ''josh_lite3_20230714''
                     ''da04d9a268ac468887a68359908e55b7''] idle_service)) = None \<and>
   fst (runOps [Start no_id_create_env ''josh_lite3_20230714''
                  ''da04d9a268ac468887a68359908e55b7'',
                Start second_create_env ''Anthony_Chair_Sitting_public''
                  ''0009aabefe3a4553bc581d837b6268cb''] idle_service) =
     [FetchToken, NewStreamingAvatar ''tok_1'',
      CreateStartAvatar ''josh_lite3_20230714'' ''da04d9a268ac468887a68359908e55b7'',
      MarkActive None,
      FetchRegister None ''josh_lite3_20230714'' ''da04d9a268ac468887a68359908e55b7'',
      SetInterval 30000 KeepAliveTick,
      FetchToken, StopAvatar ''tok_1'', NewStreamingAvatar ''tok_2'',
      CreateStartAvatar ''Anthony_Chair_Sitting_public'' ''0009aabefe3a4553bc581d837b6268cb'',
      MarkActive (Some ''sess_2''),
      FetchRegister (Some ''sess_2'') ''Anthony_Chair_Sitting_public''
        ''0009aabefe3a4553bc581d837b6268cb'',
      ClearInterval 7, SetInterval 30000 KeepAliveTick] \<and>
   \<not> oneAtATime False
       (fst (runOps [Start no_id_create_env ''josh_lite3_20230714''
                       ''da04d9a268ac468887a68359908e55b7'',
                     Start second_create_env ''Anthony_Chair_Sitting_public''
                       ''0009aabefe3a4553bc581d837b6268cb''] idle_service))"
  by (simp add: createSessionWithBackend_def createSessionTry_def closeSession_def
        stopKeepAlive_def clearSession_def initializeSDK_def startKeepAlive_def
        second_create_env_def first_create_env_def no_id_create_env_def ok_close_env_def
        active_service_def idle_service_def Let_def)

theorem createSession_replaces_active_witness:
  "fst (createSessionWithBackend second_create_env ''Pedro_Chair_Sitting_public''
          ''e17b99e1b86e47e8b7f4cae0f806aa78'' active_service) =
     [ClearInterval 7, StopAvatar ''tok_1'', FetchUnregister ''sess_1'', MarkInactive,
      Delay 1000, FetchToken, StopAvatar ''tok_1'', NewStreamingAvatar ''tok_2'',
      CreateStartAvatar ''Pedro_Chair_Sitting_public'' ''e17b99e1b86e47e8b7f4cae0f806aa78'',
      MarkActive (Some ''sess_2''),
      FetchRegister (Some ''sess_2'') ''Pedro_Chair_Sitting_public''
        ''e17b99e1b86e47e8b7f4cae0f806aa78'',
      SetInterval 30000 KeepAliveTick] \<and>
   sessionId (closedFirst second_create_env ''Pedro_Chair_Sitting_public''
                ''e17b99e1b86e47e8b7f4cae0f806aa78'' active_service) = None \<and>
   \<not> isSessionActive (closedFirst second_create_env ''Pedro_Chair_Sitting_public''
                         ''e17b99e1b86e47e8b7f4cae0f806aa78'' active_service) \<and>
   srcObject (dom (closedFirst second_create_env ''Pedro_Chair_Sitting_public''
                     ''e17b99e1b86e47e8b7f4cae0f806aa78'' active_service) 0) = None \<and>
   isSessionActive (snd (snd (createSessionWithBackend second_create_env
                                ''Pedro_Chair_Sitting_public''
                                ''e17b99e1b86e47e8b7f4cae0f806aa78'' active_service))) \<and>
   sessionId (snd (snd (createSessionWithBackend second_create_env
                          ''Pedro_Chair_Sitting_public''
                          ''e17b99e1b86e47e8b7f4cae0f806aa78'' active_service)))
     = Some ''sess_2'' \<and>
   fst (snd (createSessionWithBackend (second_create_env\<lparr>create_close := failing_close_env\<rparr>)
               ''Pedro_Chair_Sitting_public'' ''e17b99e1b86e47e8b7f4cae0f806aa78''
               active_service)) = Inl (Error ''stop failed'') \<and>
   isSessionActive
     (snd (snd (createSessionWithBackend (second_create_env\<lparr>create_close := failing_close_env\<rparr>)
                  ''Pedro_Chair_Sitting_public'' ''e17b99e1b86e47e8b7f4cae0f806aa78''
                  active_service))) \<and>
   oneAtATime False
     (fst (runOps [Start first_create_env ''josh_lite3_20230714''
                     ''da04d9a268ac468887a68359908e55b7'',
                   Start second_create_env ''Pedro_Chair_Sitting_public''
                     ''e17b99e1b86e47e8b7f4cae0f806aa78'',
                   Disconnect, Close ok_close_env] idle_service))"
proof -
  note ok = createSession_replaces_active
          [where s = active_service and sid = "''sess_1''"
             and old = "\<lparr>handle_token = ''tok_1'', has_interrupt = True, mediaStream = None\<rparr>"
             and env = second_create_env
             and td = "\<lparr>token_status = ''success'', token_value = ''tok_2''\<rparr>"
             and a = "''Pedro_Chair_Sitting_public''"
             and v = "''e17b99e1b86e47e8b7f4cae0f806aa78''"
             and r = 0 and new = "Some ''sess_2''"
             and e = "Error ''stop failed''" and e' = "Error ''stop failed''"
             and s' = idle_service
             and ops = "[Start first_create_env ''josh_lite3_20230714''
                     ''da04d9a268ac468887a68359908e55b7'',
                   Start second_create_env ''Pedro_Chair_Sitting_public''
                     ''e17b99e1b86e47e8b7f4cae0f806aa78'',
                   Disconnect, Close ok_close_env]"]
  note bad = createSession_replaces_active
          [where s = active_service and sid = "''sess_1''"
             and old = "\<lparr>handle_token = ''tok_1'', has_interrupt = True, mediaStream = None\<rparr>"
             and env = "second_create_env\<lparr>create_close := failing_close_env\<rparr>"
             and td = "\<lparr>token_status = ''success'', token_value = ''tok_2''\<rparr>"
             and a = "''Pedro_Chair_Sitting_public''"
             and v = "''e17b99e1b86e47e8b7f4cae0f806aa78''"
             and r = 0 and new = "Some ''sess_2''"
             and e = "Error ''stop failed''" and e' = "Error ''stop failed''"
             and s' = idle_service
             and ops = "[Start first_create_env ''josh_lite3_20230714''
                     ''da04d9a268ac468887a68359908e55b7'',
                   Start second_create_env ''Pedro_Chair_Sitting_public''
                     ''e17b99e1b86e47e8b7f4cae0f806aa78'',
                   Disconnect, Close ok_close_env]"]
  have h1: "isSessionActive active_service \<and> sessionId active_service = Some ''sess_1'' \<and>
            ''sess_1'' \<noteq> [] \<and>
            avatar active_service
              = Some \<lparr>handle_token = ''tok_1'', has_interrupt = True, mediaStream = None\<rparr> \<and>
            isSDKInitialized active_service \<and>
            close_stopAvatar (create_close second_create_env) = Resolves () \<and>
            close_unregister (create_close second_create_env) = Resolves () \<and>
            create_token second_create_env
              = Resolves \<lparr>token_status = ''success'', token_value = ''tok_2''\<rparr> \<and>
            token_status \<lparr>token_status = ''success'', token_value = ''tok_2''\<rparr> = ''success''"
    by (simp add: active_service_def second_create_env_def ok_close_env_def)
  have h2: "isSessionActive active_service \<and> truthy_str (sessionId active_service) \<and>
            fst (snd (closeSession
                        (create_close (second_create_env\<lparr>create_close := failing_close_env\<rparr>))
                        active_service)) = Inl (Error ''stop failed'')"
    by (simp add: active_service_def failing_close_env_def closeSession_def stopKeepAlive_def)
  have h3: "marksAgree idle_service \<and>
            list_all providerIdOk
              [Start first_create_env ''josh_lite3_20230714'' ''da04d9a268ac468887a68359908e55b7'',
               Start second_create_env ''Pedro_Chair_Sitting_public''
                 ''e17b99e1b86e47e8b7f4cae0f806aa78'',
               Disconnect, Close ok_close_env]"
    by (simp add: marksAgree_def idle_service_def first_create_env_def second_create_env_def)
  have n: "create_startAvatar second_create_env = Resolves (Some ''sess_2'')"
    by (simp add: second_create_env_def)
  have v: "videoElement active_service = Some 0" by (simp add: active_service_def)
  note c1 = ok [THEN conjunct1, THEN mp, OF h1]
  note c2 = bad [THEN conjunct2, THEN conjunct1, THEN mp, OF h2]
  note c3 = ok [THEN conjunct2, THEN conjunct2, THEN mp, OF h3]
  have tr: "fst (createSessionWithBackend second_create_env ''Pedro_Chair_Sitting_public''
          ''e17b99e1b86e47e8b7f4cae0f806aa78'' active_service) =
     [ClearInterval 7, StopAvatar ''tok_1'', FetchUnregister ''sess_1'', MarkInactive,
      Delay 1000, FetchToken, StopAvatar ''tok_1'', NewStreamingAvatar ''tok_2'',
      CreateStartAvatar ''Pedro_Chair_Sitting_public'' ''e17b99e1b86e47e8b7f4cae0f806aa78'',
      MarkActive (Some ''sess_2''),
      FetchRegister (Some ''sess_2'') ''Pedro_Chair_Sitting_public''
        ''e17b99e1b86e47e8b7f4cae0f806aa78'',
      SetInterval 30000 KeepAliveTick]"
    using c1 [THEN conjunct1]
    by (simp add: afterCreate_def stopKeepAlive_def active_service_def second_create_env_def
          ok_close_env_def)
  note k2 = c1 [THEN conjunct2, THEN conjunct1]
  note k3 = c1 [THEN conjunct2, THEN conjunct2, THEN conjunct1]
  note k8 = c1 [THEN conjunct2, THEN conjunct2, THEN conjunct2, THEN conjunct2, THEN conjunct2, THEN conjunct2, THEN conjunct2, THEN conjunct1, THEN mp, OF v]
  note k10 = c1 [THEN conjunct2, THEN conjunct2, THEN conjunct2, THEN conjunct2, THEN conjunct2, THEN conjunct2, THEN conjunct2, THEN conjunct2, THEN conjunct2, THEN conjunct1, THEN mp, OF n]
  note f1 = c2 [THEN conjunct1]
  note f4 = c2 [THEN conjunct2, THEN conjunct2, THEN conjunct2, THEN conjunct1]
  have ia: "isSessionActive idle_service = False" by (simp add: idle_service_def)
  note g1 = c3 [THEN conjunct1, unfolded ia]
  show ?thesis
    apply (intro conjI)
           apply (rule tr)
          apply (rule k2)
         apply (rule k3)
        apply (rule k8)
       apply (rule k10 [THEN conjunct1])
      apply (rule k10 [THEN conjunct2])
     apply (rule f1)
    apply (rule f4)
    apply (rule g1)
    done
qed

section \<open>The states the service can reach\<close>

text \<open>
  The states of the service: the one its constructor builds, and those that follow by
  a call of one of its methods, by the view handing over a media element, changing an
  element or subscribing a listener, and by an event of the provider. The listeners for
  the provider's events are registered by initializeSDK on the avatar object it builds,
  so an event needs an avatar object.
\<close>

inductive reachable :: "heygen_service \<Rightarrow> bool" where
  constructed: "reachable (idle_service\<lparr>dom := d\<rparr>)"
| created: "reachable s \<Longrightarrow> reachable (snd (snd (createSessionWithBackend env a v s)))"
| closed: "reachable s \<Longrightarrow> reachable (snd (snd (closeSession cenv s)))"
| prompted: "reachable s \<Longrightarrow> reachable (snd (snd (sendPrompt penv p s)))"
| interrupted: "reachable s \<Longrightarrow> reachable (snd (snd (interruptAvatar out s)))"
| ticked: "reachable s \<Longrightarrow> reachable (snd (snd (keepAliveTick out s)))"
| retried: "reachable s \<Longrightarrow> reachable (snd (retryAttach r s))"
| video_given: "reachable s \<Longrightarrow> reachable (s\<lparr>videoElement := vr\<rparr>)"
| subscribed: "reachable s \<Longrightarrow> reachable (s\<lparr>onStateChangeListeners := ls\<rparr>)"
| view_changed: "reachable s \<Longrightarrow> reachable (s\<lparr>dom := d\<rparr>)"
| start_talking: "reachable s \<Longrightarrow> avatar s = Some h \<Longrightarrow> reachable (snd (onAvatarStartTalking s))"
| stop_talking: "reachable s \<Longrightarrow> avatar s = Some h \<Longrightarrow> reachable (snd (onAvatarStopTalking s))"
| stream_ready: "reachable s \<Longrightarrow> avatar s = Some h
                   \<Longrightarrow> reachable (snd (snd (attachAvatarStream plenv ev s)))"
| disconnected: "reachable s \<Longrightarrow> avatar s = Some h
                   \<Longrightarrow> reachable (snd (handleSessionDisconnect s))"
| stream_stored: "reachable s \<Longrightarrow> avatar s = Some h \<Longrightarrow> reachable (providerStream m s)"

text \<open>
  An avatar object is there only with the SDK initialised, and the speaking flag is set
  only with an avatar object there.
\<close>

definition speakerKnown :: "heygen_service \<Rightarrow> bool" where
  "speakerKnown s =
     ((avatar s \<noteq> None \<longrightarrow> isSDKInitialized s) \<and> (isAvatarSpeaking s \<longrightarrow> avatar s \<noteq> None))"

lemma speakerKnown_stopKeepAlive: "speakerKnown (snd (stopKeepAlive s)) = speakerKnown s"
  by (simp add: speakerKnown_def)

lemma speakerKnown_clearSession: "speakerKnown s \<Longrightarrow> speakerKnown (clearSession s)"
  by (simp add: speakerKnown_def)

lemma speakerKnown_closeSession:
  assumes "speakerKnown s"
  shows "speakerKnown (snd (snd (closeSession env s)))"
proof (cases "truthy_str (sessionId s)")
  case False
  from closeSession_falsy [OF False, of env] assms show ?thesis by simp
next
  case True
  then obtain sid where sid: "sessionId s = Some sid" "sid \<noteq> []" by (cases "sessionId s") auto
  from closeSession_shape [OF sid, of env]
  have "snd (snd (closeSession env s)) = snd (stopKeepAlive s) \<or>
        snd (snd (closeSession env s)) = clearSession (snd (stopKeepAlive s))"
    by auto
  with assms show ?thesis
    using speakerKnown_stopKeepAlive [of s] speakerKnown_clearSession [of "snd (stopKeepAlive s)"]
    by auto
qed

lemma initializeSDK_speaking [simp]:
  "isAvatarSpeaking (snd (initializeSDK o1 b tok s)) = isAvatarSpeaking s"
  by (simp add: initializeSDK_def Let_def)

lemma startKeepAlive_speaking [simp]:
  "isAvatarSpeaking (snd (startKeepAlive n s)) = isAvatarSpeaking s"
  by (simp add: startKeepAlive_def Let_def)

lemma speakerKnown_createSessionTry:
  assumes "speakerKnown s"
  shows "speakerKnown (snd (snd (createSessionTry env a v s)))"
  using assms
  by (cases "create_startAvatar env"; cases "create_token env"; cases "create_register env")
     (auto simp: createSessionTry_def Let_def case_prod_unfold speakerKnown_def)

lemma speakerKnown_createSessionWithBackend:
  assumes "speakerKnown s"
  shows "speakerKnown (snd (snd (createSessionWithBackend env a v s)))"
proof -
  define s0 where "s0 = s\<lparr>currentAvatarId := Some a, currentVoiceId := Some v\<rparr>"
  have k0: "speakerKnown s0" using assms by (simp add: s0_def speakerKnown_def)
  show ?thesis
  proof (cases "isSessionActive s \<and> truthy_str (sessionId s)")
    case False
    with speakerKnown_createSessionTry [OF k0, of env a v] show ?thesis
      by (simp add: createSessionWithBackend_inactive s0_def [symmetric])
  next
    case True
    obtain tc rc s1 where c: "closeSession (create_close env) s0 = (tc, rc, s1)"
      by (cases "closeSession (create_close env) s0") auto
    have k1: "speakerKnown s1"
      using speakerKnown_closeSession [OF k0, of "create_close env"] c by simp
    show ?thesis
    proof (cases rc)
      case (Inl e)
      with True c k1 show ?thesis
        by (simp add: createSessionWithBackend_active s0_def [symmetric])
    next
      case (Inr ok)
      with True c speakerKnown_createSessionTry [OF k1, of env a v] show ?thesis
        by (simp add: createSessionWithBackend_active s0_def [symmetric] case_prod_unfold)
    qed
  qed
qed

lemma reachable_speakerKnown: "reachable s \<Longrightarrow> speakerKnown s"
proof (induction rule: reachable.induct)
  case (constructed d)
  then show ?case by (simp add: speakerKnown_def idle_service_def)
next
  case (created s env a v)
  then show ?case by (simp add: speakerKnown_createSessionWithBackend)
next
  case (closed s cenv)
  then show ?case by (simp add: speakerKnown_closeSession)
next
  case (prompted s penv p)
  then show ?case
    by (cases "prompt_fetch penv"; cases "prompt_speak penv")
       (auto simp: sendPrompt_def Let_def split: option.splits)
next
  case (interrupted s out)
  then show ?case
    by (cases out) (auto simp: interruptAvatar_def Let_def speakerKnown_def split: option.splits)
next
  case (ticked s out)
  then show ?case by (cases out) (auto simp: keepAliveTick_def split: option.splits)
next
  case (retried s r)
  then show ?case by (auto simp: retryAttach_def speakerKnown_def split: option.splits)
next
  case (stream_ready s h plenv ev)
  then show ?case
    by (cases "play_first plenv"; cases "play_muted plenv")
       (auto simp: attachAvatarStream_def Let_def speakerKnown_def split: option.splits)
next
  case (disconnected s h)
  then show ?case by (simp add: handleSessionDisconnect_def Let_def speakerKnown_def)
next
  case (stream_stored s h m)
  then show ?case by (simp add: providerStream_def speakerKnown_def)
next
  case (start_talking s h)
  then show ?case by (simp add: onAvatarStartTalking_def Let_def speakerKnown_def)
next
  case (stop_talking s h)
  then show ?case by (simp add: onAvatarStopTalking_def Let_def speakerKnown_def)
qed (simp_all add: speakerKnown_def)

text \<open>A session of Josh is started from the constructor's state, and the avatar starts to talk.\<close>

definition started_service :: heygen_service where
  "started_service =
     snd (snd (createSessionWithBackend first_create_env ''josh_lite3_20230714''
                 ''da04d9a268ac468887a68359908e55b7'' idle_service))"

definition talking_service :: heygen_service where
  "talking_service = snd (onAvatarStartTalking started_service)"

text \<open>The same on an SDK whose avatar object has no interrupt function.\<close>

definition speaking_no_interrupt :: heygen_service where
  "speaking_no_interrupt =
     snd (onAvatarStartTalking
            (snd (snd (createSessionWithBackend (first_create_env\<lparr>sdk_has_interrupt := False\<rparr>)
                         ''josh_lite3_20230714'' ''da04d9a268ac468887a68359908e55b7''
                         idle_service))))"

lemma reachable_idle: "reachable idle_service"
  using reachable.constructed [of "dom idle_service"] by simp

lemma started_avatar:
  "avatar (snd (snd (createSessionWithBackend (first_create_env\<lparr>sdk_has_interrupt := b\<rparr>)
                       ''josh_lite3_20230714'' ''da04d9a268ac468887a68359908e55b7''
                       idle_service)))
     = Some \<lparr>handle_token = ''tok_1'', has_interrupt = b, mediaStream = None\<rparr>"
  "isSDKInitialized
     (snd (snd (createSessionWithBackend (first_create_env\<lparr>sdk_has_interrupt := b\<rparr>)
                  ''josh_lite3_20230714'' ''da04d9a268ac468887a68359908e55b7''
                  idle_service)))"
  by (simp_all add: createSessionWithBackend_def createSessionTry_def initializeSDK_def
        startKeepAlive_def first_create_env_def idle_service_def Let_def)

lemma reachable_talking: "reachable talking_service"
proof -
  have e: "first_create_env\<lparr>sdk_has_interrupt := True\<rparr> = first_create_env"
    by (simp add: first_create_env_def)
  have "reachable started_service"
    unfolding started_service_def by (rule reachable.created [OF reachable_idle])
  moreover have "avatar started_service
                   = Some \<lparr>handle_token = ''tok_1'', has_interrupt = True, mediaStream = None\<rparr>"
    using started_avatar(1) [of True] by (simp add: started_service_def e)
  ultimately show ?thesis
    unfolding talking_service_def by (rule reachable.start_talking)
qed

lemma reachable_speaking_no_interrupt: "reachable speaking_no_interrupt"
  unfolding speaking_no_interrupt_def
  by (rule reachable.start_talking [OF reachable.created [OF reachable_idle] started_avatar(1)])

lemma talking_fields:
  "avatar talking_service
     = Some \<lparr>handle_token = ''tok_1'', has_interrupt = True, mediaStream = None\<rparr>"
  "isSDKInitialized talking_service" "isAvatarSpeaking talking_service"
  "avatar speaking_no_interrupt
     = Some \<lparr>handle_token = ''tok_1'', has_interrupt = False, mediaStream = None\<rparr>"
  "isSDKInitialized speaking_no_interrupt" "isAvatarSpeaking speaking_no_interrupt"
  using started_avatar [of True] started_avatar [of False]
  by (simp_all add: talking_service_def started_service_def speaking_no_interrupt_def
        onAvatarStartTalking_def Let_def first_create_env_def)


text \<open>
  C4 (interrupt and the speaking flag), as the code has it. In every state the service
  can reach, the speaking flag is false after interruptAvatar when the provider's call
  is made, whether it resolves, rejects or throws, and also when the SDK is not
  initialised or the avatar object is absent (the flag cannot be set then). When the
  avatar object has no interrupt function, interruptAvatar returns false and leaves the
  state, the speaking flag included, as it was.
\<close>

theorem interruptAvatar_speaking_flag:
  assumes "reachable s"
  shows "((avatar s = Some h \<and> isSDKInitialized s \<and> has_interrupt h) \<or>
          avatar s = None \<or> \<not> isSDKInitialized s
            \<longrightarrow> \<not> isAvatarSpeaking (snd (snd (interruptAvatar out s)))) \<and>
         (avatar s = Some h \<and> isSDKInitialized s \<and> \<not> has_interrupt h
            \<longrightarrow> interruptAvatar out s = ([], Inr False, s))"
  using reachable_speakerKnown [OF assms]
  by (cases out) (auto simp: interruptAvatar_def Let_def speakerKnown_def split: option.splits)

theorem interruptAvatar_speaking_flag_witness:
  "reachable talking_service \<and> isAvatarSpeaking talking_service \<and>
   \<not> isAvatarSpeaking
       (snd (snd (interruptAvatar (Rejects (Error ''late'')) talking_service))) \<and>
   reachable idle_service \<and>
   \<not> isAvatarSpeaking (snd (snd (interruptAvatar (Resolves ()) idle_service))) \<and>
   reachable speaking_no_interrupt \<and>
   interruptAvatar (Resolves ()) speaking_no_interrupt = ([], Inr False, speaking_no_interrupt)"
proof -
  note a = interruptAvatar_speaking_flag
             [OF reachable_talking,
              where h = "\<lparr>handle_token = ''tok_1'', has_interrupt = True, mediaStream = None\<rparr>"
                and out = "Rejects (Error ''late'')"]
  note b = interruptAvatar_speaking_flag
             [OF reachable_idle,
              where h = "\<lparr>handle_token = ''tok_1'', has_interrupt = True, mediaStream = None\<rparr>"
                and out = "Resolves ()"]
  note c = interruptAvatar_speaking_flag
             [OF reachable_speaking_no_interrupt,
              where h = "\<lparr>handle_token = ''tok_1'', has_interrupt = False, mediaStream = None\<rparr>"
                and out = "Resolves ()"]
  have i: "avatar idle_service = None" by (simp add: idle_service_def)
  from a talking_fields have 1: "\<not> isAvatarSpeaking
       (snd (snd (interruptAvatar (Rejects (Error ''late'')) talking_service)))" by simp
  from b i have 2: "\<not> isAvatarSpeaking (snd (snd (interruptAvatar (Resolves ()) idle_service)))"
    by simp
  from c talking_fields
  have 3: "interruptAvatar (Resolves ()) speaking_no_interrupt = ([], Inr False, speaking_no_interrupt)"
    by simp
  from 1 2 3 reachable_talking reachable_idle reachable_speaking_no_interrupt talking_fields(3)
  show ?thesis by simp
qed

text \<open>
  The claim as it was stated fails there: with the interrupt function missing, the flag
  is still set after interruptAvatar has returned.
\<close>

theorem interruptAvatar_flag_counterexample:
  "reachable speaking_no_interrupt \<and>
   isAvatarSpeaking (snd (snd (interruptAvatar (Resolves ()) speaking_no_interrupt)))"
  using reachable_speaking_no_interrupt talking_fields(4,5,6)
  by (simp add: interruptAvatar_def)

section \<open>Renewal\<close>

definition initial_app :: app where
  "initial_app =
     \<lparr>avatarId = ''josh_lite3_20230714'', voiceId = ''da04d9a268ac468887a68359908e55b7'',
      heygenConnected = False, activeSessions = 0, prompt = [], loading = False,
      ui_sessionId = None, lastResponse = None, chatRefreshTrigger = 0,
      ui_isAvatarSpeaking = False, isVoiceMode = False, transcriptionBuffer = [],
      videoRef = Some 0\<rparr>"

definition first_app_env :: app_create_env where
  "first_app_env = \<lparr>app_create = first_create_env, app_create_sessions = Resolves (Some 1)\<rparr>"

definition renew_env :: refresh_env where
  "renew_env =
     \<lparr>refresh_close = \<lparr>app_close = ok_close_env, app_close_sessions = Resolves (Some 0)\<rparr>,
      refresh_create = \<lparr>app_create = second_create_env,
                        app_create_sessions = Resolves (Some 1)\<rparr>\<rparr>"

text \<open>Josh is started; while the call is in flight the user picks Anthony.\<close>

definition picked_during_create ::
  "action list \<times> (js_error + unit) \<times> app \<times> heygen_service" where
  "picked_during_create =
     createHeyGenSession first_app_env [''Anthony_Chair_Sitting_public'']
       (initial_app, idle_service\<lparr>videoElement := Some 0\<rparr>)"

text \<open>
  C8 (renewal keeps the avatar and the voice) does not hold when the selection was
  changed while the session was being created. The first trace is the creation: the
  session is created for Josh. The component is then connected, with a session id, so
  the renewal timer is set. The second trace is the renewal nine minutes later: the new
  session is created for Anthony, with Anthony's voice.
\<close>

theorem renewal_changes_avatar:
  "fst picked_during_create =
     [FetchToken, NewStreamingAvatar ''tok_1'',
      CreateStartAvatar ''josh_lite3_20230714'' ''da04d9a268ac468887a68359908e55b7'',
      MarkActive (Some ''sess_1''),
      FetchRegister (Some ''sess_1'') ''josh_lite3_20230714'' ''da04d9a268ac468887a68359908e55b7'',
      SetInterval 30000 KeepAliveTick, FetchActiveSessions] \<and>
   refreshScheduled (fst (snd (snd picked_during_create))) \<and>
   fst (sessionRefresh renew_env (snd (snd picked_during_create))) =
     [ClearInterval 7, StopAvatar ''tok_1'', FetchUnregister ''sess_1'', MarkInactive,
      FetchActiveSessions, Delay 1000, FetchToken, StopAvatar ''tok_1'',
      NewStreamingAvatar ''tok_2'',
      CreateStartAvatar ''Anthony_Chair_Sitting_public'' ''0009aabefe3a4553bc581d837b6268cb'',
      MarkActive (Some ''sess_2''),
      FetchRegister (Some ''sess_2'') ''Anthony_Chair_Sitting_public''
        ''0009aabefe3a4553bc581d837b6268cb'',
      SetInterval 30000 KeepAliveTick, FetchActiveSessions]"
  unfolding picked_during_create_def
  by (simp add: createHeyGenSession_def createSessionWithBackend_def createSessionTry_def
        initializeSDK_def startKeepAlive_def handleAvatarChange_def voiceOf_def workingAvatars_def
        fetchActiveSessions_def first_app_env_def first_create_env_def initial_app_def
        idle_service_def Let_def refreshScheduled_def sessionRefresh_def closeHeyGenSession_def
        closeSession_def stopKeepAlive_def clearSession_def renew_env_def second_create_env_def
        ok_close_env_def)

text \<open>
  Without a pick during the creation the renewal does keep the ids: the avatar and voice
  of every createStartAvatar call, in the creation and in the renewal after it, are
  those selected when the creation began.
\<close>

primrec createCalls :: "action list \<Rightarrow> (string \<times> string) list" where
  "createCalls [] = []"
| "createCalls (x # tr) =
     (case x of CreateStartAvatar a v \<Rightarrow> (a, v) # createCalls tr | _ \<Rightarrow> createCalls tr)"

lemma createCalls_append [simp]: "createCalls (t1 @ t2) = createCalls t1 @ createCalls t2"
  by (induction t1) (auto split: action.splits)

lemma createCalls_closeSession [simp]: "createCalls (fst (closeSession env s)) = []"
  by (auto simp: closeSession_def stopKeepAlive_def case_prod_unfold Let_def
        split: option.splits sum.splits)

lemma createCalls_createSessionTry:
  "set (createCalls (fst (createSessionTry env a v s))) \<subseteq> {(a, v)}"
  by (cases "create_startAvatar env"; cases "create_token env"; cases "create_register env";
      cases "init_stopAvatar env")
     (auto simp: createSessionTry_def initializeSDK_def startKeepAlive_def Let_def
        split: option.splits)

lemma createCalls_createSessionWithBackend:
  "set (createCalls (fst (createSessionWithBackend env a v s))) \<subseteq> {(a, v)}"
proof (cases "isSessionActive s \<and> truthy_str (sessionId s)")
  case False
  then show ?thesis
    using createCalls_createSessionTry by (simp add: createSessionWithBackend_inactive)
next
  case True
  define s0 where "s0 = s\<lparr>currentAvatarId := Some a, currentVoiceId := Some v\<rparr>"
  obtain tc rc s1 where c: "closeSession (create_close env) s0 = (tc, rc, s1)"
    by (cases "closeSession (create_close env) s0") auto
  have tc: "createCalls tc = []"
    using createCalls_closeSession [of "create_close env" s0] c by simp
  show ?thesis
    using True c tc createCalls_createSessionTry [of env a v s1]
    by (cases rc)
       (auto simp: createSessionWithBackend_active s0_def [symmetric] case_prod_unfold)
qed

lemma createCalls_picks [simp]: "createCalls (fst (pickAvatars during ui)) = []"
  by (induction during arbitrary: ui) (auto simp: handleAvatarChange_def case_prod_unfold)

lemma createCalls_fetchActiveSessions [simp]:
  "createCalls (fst (fetchActiveSessions out ui)) = []"
  by (cases out) (auto simp: fetchActiveSessions_def)

lemma createCalls_createHeyGenSession:
  "set (createCalls (fst (createHeyGenSession env during (ui, s))))
     \<subseteq> {(avatarId ui, voiceOf (avatarId ui) (voiceId ui))}"
proof -
  obtain t r s1 where b: "createSessionWithBackend (app_create env) (avatarId ui)
                            (voiceOf (avatarId ui) (voiceId ui)) s = (t, r, s1)"
    by (cases "createSessionWithBackend (app_create env) (avatarId ui)
                 (voiceOf (avatarId ui) (voiceId ui)) s") auto
  have t: "set (createCalls t) \<subseteq> {(avatarId ui, voiceOf (avatarId ui) (voiceId ui))}"
    using createCalls_createSessionWithBackend
            [of "app_create env" "avatarId ui" "voiceOf (avatarId ui) (voiceId ui)" s] b
    by simp
  show ?thesis
    using t b
    by (auto simp: createHeyGenSession_def Let_def case_prod_unfold
          split: sum.splits js_error.splits)
qed

lemma closeHeyGenSession_selection:
  "avatarId (fst (snd (snd (closeHeyGenSession env (ui, s))))) = avatarId ui"
  "voiceId (fst (snd (snd (closeHeyGenSession env (ui, s))))) = voiceId ui"
  "createCalls (fst (closeHeyGenSession env (ui, s))) = []"
proof -
  obtain t r s1 where c: "closeSession (app_close env) s = (t, r, s1)"
    by (cases "closeSession (app_close env) s") auto
  have t: "createCalls t = []" using createCalls_closeSession [of "app_close env" s] c by simp
  show "avatarId (fst (snd (snd (closeHeyGenSession env (ui, s))))) = avatarId ui"
       "voiceId (fst (snd (snd (closeHeyGenSession env (ui, s))))) = voiceId ui"
       "createCalls (fst (closeHeyGenSession env (ui, s))) = []"
    using c t
    by (cases r; cases "app_close_sessions env";
        auto simp: closeHeyGenSession_def fetchActiveSessions_def Let_def case_prod_unfold)+
qed

lemma sessionRefresh_uses_selection:
  "set (createCalls (fst (sessionRefresh env (ui, s))))
     \<subseteq> {(avatarId ui, voiceOf (avatarId ui) (voiceId ui))}"
proof -
  obtain t1 r1 ui1 s1 where c: "closeHeyGenSession (refresh_close env) (ui, s) = (t1, r1, ui1, s1)"
    by (cases "closeHeyGenSession (refresh_close env) (ui, s)") auto
  have sel: "avatarId ui1 = avatarId ui" "voiceId ui1 = voiceId ui" "createCalls t1 = []"
    using closeHeyGenSession_selection [of "refresh_close env" ui s] c by simp_all
  show ?thesis
    using c sel createCalls_createHeyGenSession [of "refresh_create env" "[]" ui1 s1]
    by (auto simp: sessionRefresh_def case_prod_unfold)
qed

lemma createHeyGenSession_undisturbed:
  "avatarId (fst (snd (snd (createHeyGenSession env [] (ui, s))))) = avatarId ui"
  "voiceId (fst (snd (snd (createHeyGenSession env [] (ui, s))))) = voiceId ui"
  by (cases "app_create_sessions env";
      auto simp: createHeyGenSession_def fetchActiveSessions_def Let_def case_prod_unfold
        split: sum.splits js_error.splits)+

lemma renewal_same_ids_undisturbed:
  "set (createCalls (fst (createHeyGenSession env1 [] (ui, s)))
        @ createCalls (fst (sessionRefresh env2 (snd (snd (createHeyGenSession env1 [] (ui, s)))))))
     \<subseteq> {(avatarId ui, voiceOf (avatarId ui) (voiceId ui))}"
proof -
  obtain t r ui1 s1 where c: "createHeyGenSession env1 [] (ui, s) = (t, r, ui1, s1)"
    by (cases "createHeyGenSession env1 [] (ui, s)") auto
  have sel: "avatarId ui1 = avatarId ui" "voiceId ui1 = voiceId ui"
    using createHeyGenSession_undisturbed [of env1 ui s] c by simp_all
  show ?thesis
    using createCalls_createHeyGenSession [of env1 "[]" ui s]
          sessionRefresh_uses_selection [of env2 ui1 s1] c sel
    by auto
qed

end
